theory Spec2Isabelle
  imports Main
begin

section \<open>Values, errors and text\<close>

text \<open>
  The development embeds \<^verbatim>\<open>fastlane/worker/docker_executor.py\<close>: the host pool
  (\<^verbatim>\<open>DockerPool\<close>) and the job operations of \<^verbatim>\<open>Executor\<close>.  Every exception the
  source can raise is a value of \<open>pyerror\<close>; an operation returns \<open>Inl\<close> of the
  error or \<open>Inr\<close> of its result.
\<close>

datatype pyerror =
    KeyError string
  | TypeError
  | IndexError
  | ValueError
  | UnicodeDecodeError
  | RuntimeError string
  | ConnectionError string
  | HostUnavailableError string int string
  | CircuitBreakerError
  | OtherError string

text \<open>
  What the libraries below the executor raise (the container engine client and the
  shared store): a connection-class failure, which
  \<^verbatim>\<open>except requests.exceptions.ConnectionError\<close> catches, or any other error, which
  it does not.
\<close>

datatype ext_error = ConnErr string | ExtErr string

fun raise_ext :: "ext_error \<Rightarrow> pyerror" where
  "raise_ext (ConnErr m) = ConnectionError m"
| "raise_ext (ExtErr m) = OtherError m"

text \<open>
  A value stored in \<^verbatim>\<open>execution.metadata\<close>: \<^verbatim>\<open>None\<close>, a \<^verbatim>\<open>str\<close> or an \<^verbatim>\<open>int\<close>.
\<close>

datatype mval = MNone | MStr string | MInt int

type_synonym metadata = "string \<rightharpoonup> mval"

text \<open>Python's \<^verbatim>\<open>str(n)\<close> for an integer: decimal digits, a minus sign when negative.\<close>

definition digit_char :: "nat \<Rightarrow> char" where
  "digit_char n = ''0123456789abcdef'' ! (n mod 16)"

fun str_nat :: "nat \<Rightarrow> string" where
  "str_nat n = (if n < 10 then [digit_char n] else str_nat (n div 10) @ [digit_char (n mod 10)])"

declare str_nat.simps [simp del]

definition str_int :: "int \<Rightarrow> string" where
  "str_int i = (if i < 0 then ''-'' @ str_nat (nat (- i)) else str_nat (nat i))"

text \<open>What an f-string writes for a metadata value.\<close>

fun fmt :: "mval \<Rightarrow> string" where
  "fmt MNone = ''None''"
| "fmt (MStr s) = s"
| "fmt (MInt i) = str_int i"

text \<open>\<^verbatim>\<open>f"{host}:{port}"\<close>, the key of a host in the pool, the blacklist and the breakers.\<close>

definition address :: "string \<Rightarrow> int \<Rightarrow> string" where
  "address host port = host @ '':'' @ str_int port"

text \<open>
  Python's \<^verbatim>\<open>str\<close> of a \<^verbatim>\<open>bytes\<close> object, which an f-string writes for it:
  \<^verbatim>\<open>b'...'\<close> with backslash escapes; double quotes are used when the bytes hold a
  single quote and no double quote.
\<close>

definition bytes_quote :: "string \<Rightarrow> char" where
  "bytes_quote bs =
     (if CHR 0x27 \<in> set bs \<and> CHR 0x22 \<notin> set bs then CHR 0x22 else CHR 0x27)"

definition escape_byte :: "char \<Rightarrow> char \<Rightarrow> string" where
  "escape_byte q c =
     (if c = q \<or> c = CHR 0x5C then [CHR 0x5C, c]
      else if c = CHR 0x09 then [CHR 0x5C, CHR ''t'']
      else if c = CHR 0x0A then [CHR 0x5C, CHR ''n'']
      else if c = CHR 0x0D then [CHR 0x5C, CHR ''r'']
      else if (of_char c :: nat) < 32 \<or> 127 \<le> (of_char c :: nat)
        then [CHR 0x5C, CHR ''x'', digit_char (of_char c div 16), digit_char (of_char c mod 16)]
      else [c])"

definition bytes_repr :: "string \<Rightarrow> string" where
  "bytes_repr bs =
     (let q = bytes_quote bs in ''b'' @ [q] @ concat (map (escape_byte q) bs) @ [q])"

section \<open>Execution results\<close>

text \<open>
  Modelled from the spec: the class \<^verbatim>\<open>ExecutionResult\<close> of \<^verbatim>\<open>fastlane.worker\<close> is
  imported by the source and is not among the source files.  Its status is one of
  created, running, done, failed; a fresh result has only its status set;
  \<open>finished_at\<close> and \<open>log\<close> are optional.
\<close>

datatype exec_status = Created | Running | Done | Failed

text \<open>
  The \<open>error\<close> field holds a \<^verbatim>\<open>str\<close> (the engine's text) or a \<^verbatim>\<open>bytes\<close> object
  (the raw stderr), as the source assigns both.
\<close>

datatype pytext = PStr string | PBytes string

datatype datetime = Datetime int

record execution_result =
  status :: exec_status
  exit_code :: "int option"
  error :: pytext
  started_at :: "datetime option"
  finished_at :: "datetime option"
  log :: "string option"

definition ExecutionResult :: "exec_status \<Rightarrow> execution_result" where
  "ExecutionResult s =
     \<lparr>status = s, exit_code = None, error = PStr [], started_at = None,
      finished_at = None, log = None\<rparr>"

text \<open>The dictionary \<^verbatim>\<open>STATUS\<close>, in the order of the source.\<close>

definition STATUS :: "(string \<times> exec_status) list" where
  "STATUS =
     [(''created'', Created), (''exited'', Done), (''dead'', Failed), (''running'', Running)]"

text \<open>\<^verbatim>\<open>STATUS.get(container.status, ExecutionResult.Status.done)\<close>.\<close>

definition STATUS_get :: "string \<Rightarrow> exec_status" where
  "STATUS_get s = (case map_of STATUS s of Some v \<Rightarrow> v | None \<Rightarrow> Done)"

definition job_prefix :: string where
  "job_prefix = ''fastlane-job''"

definition blacklist_key :: string where
  "blacklist_key = ''docker-executor::blacklisted-hosts''"

text \<open>
  The value \<^verbatim>\<open>validate_max_running_executions\<close> returns:
  \<^verbatim>\<open>total_running == 0 or total_running <= max_running\<close>.
\<close>

definition capacity_ok :: "int \<Rightarrow> int \<Rightarrow> bool" where
  "capacity_ok total_running max_running \<longleftrightarrow> total_running = 0 \<or> total_running \<le> max_running"

section \<open>The world outside the executor\<close>

text \<open>
  A host client is the triple \<^verbatim>\<open>(host, port, client)\<close> the pool stores; the engine
  handle \<^verbatim>\<open>docker.DockerClient(base_url=address)\<close> is identified by its base URL.
\<close>

type_synonym docker_client = string

type_synonym client_t = "string \<times> int \<times> docker_client"

text \<open>
  A container as the engine client returns it: \<^verbatim>\<open>id\<close>, \<^verbatim>\<open>name\<close>, \<^verbatim>\<open>status\<close> and the
  fields of \<^verbatim>\<open>attrs['State']\<close> the source reads.
\<close>

record container =
  cid :: string
  cname :: string
  cstatus :: string
  state_exit_code :: int
  state_error :: string
  state_started_at :: string
  state_finished_at :: string

text \<open>The \<^verbatim>\<open>filters\<close> argument of \<^verbatim>\<open>containers.list\<close>, as the source passes it.\<close>

datatype list_filter = NoFilter | StatusFilter string | NameFilter string

text \<open>
  The libraries the source calls are not part of it: the circuit breaker
  (\<^verbatim>\<open>pybreaker\<close>), the container engine client (\<^verbatim>\<open>docker\<close>), the shared store
  (\<^verbatim>\<open>redis\<close>), compiled patterns (\<^verbatim>\<open>re\<close>), date parsing and decoding.  They are
  parameters: a record of functions over a state \<open>'w\<close> that holds everything outside
  the process (and the executor's breaker handles).  Every theorem below holds for
  every such record.

  The breaker of a key is three hooks, as \<^verbatim>\<open>CircuitBreaker.call\<close> uses them:
  \<open>cb_before\<close> answers whether the call may run (an open breaker refuses and the
  caller gets \<^verbatim>\<open>CircuitBreakerError\<close>); after the call \<open>cb_success\<close> or
  \<open>cb_failure\<close> records the outcome, and \<open>cb_failure\<close> answers whether the breaker
  tripped, in which case \<^verbatim>\<open>CircuitBreakerError\<close> replaces the call's own exception.
  \<open>cb_state\<close> is \<^verbatim>\<open>get_circuit(key).current_state\<close>.
\<close>

record ('w, 'r) env =
  re_match :: "'r \<Rightarrow> string \<Rightarrow> bool"
  cb_before :: "string \<Rightarrow> 'w \<Rightarrow> bool \<times> 'w"
  cb_success :: "string \<Rightarrow> 'w \<Rightarrow> 'w"
  cb_failure :: "string \<Rightarrow> pyerror \<Rightarrow> 'w \<Rightarrow> bool \<times> 'w"
  cb_state :: "string \<Rightarrow> 'w \<Rightarrow> string"
  redis_smembers :: "string \<Rightarrow> 'w \<Rightarrow> ext_error + string list"
  decode_utf8 :: "string \<Rightarrow> string option"
  parse_date :: "string \<Rightarrow> datetime option"
  images_pull :: "docker_client \<Rightarrow> string \<Rightarrow> string \<Rightarrow> 'w \<Rightarrow> (ext_error + unit) \<times> 'w"
  containers_run ::
    "docker_client \<Rightarrow> string \<Rightarrow> string \<Rightarrow> string \<Rightarrow> (string \<times> string) list \<Rightarrow> 'w
      \<Rightarrow> (ext_error + container) \<times> 'w"
  containers_get :: "docker_client \<Rightarrow> mval \<Rightarrow> 'w \<Rightarrow> (ext_error + container) \<times> 'w"
  containers_list ::
    "docker_client \<Rightarrow> bool \<Rightarrow> list_filter \<Rightarrow> 'w \<Rightarrow> (ext_error + container list) \<times> 'w"
  container_stop :: "docker_client \<Rightarrow> container \<Rightarrow> 'w \<Rightarrow> (ext_error + unit) \<times> 'w"
  container_rename :: "docker_client \<Rightarrow> container \<Rightarrow> string \<Rightarrow> 'w \<Rightarrow> (ext_error + unit) \<times> 'w"
  container_remove :: "docker_client \<Rightarrow> container \<Rightarrow> 'w \<Rightarrow> (ext_error + unit) \<times> 'w"
  container_logs ::
    "docker_client \<Rightarrow> container \<Rightarrow> bool \<Rightarrow> bool \<Rightarrow> 'w \<Rightarrow> (ext_error + string) \<times> 'w"
  container_logs_stream ::
    "docker_client \<Rightarrow> container \<Rightarrow> 'w \<Rightarrow> (string list \<times> ext_error option) \<times> 'w"
  container_repo_tags :: "docker_client \<Rightarrow> container \<Rightarrow> 'w \<Rightarrow> (ext_error + string list) \<times> 'w"

text \<open>
  \<^verbatim>\<open>circuit.call(f)\<close> and the decorator \<^verbatim>\<open>@circuit\<close>.  The wrapped function \<open>f\<close>
  is a closure over the execution metadata, which it may update: \<open>x\<close> is that
  captured state, returned unchanged when the breaker refuses the call.
\<close>

definition circuit_call ::
  "('w, 'r) env \<Rightarrow> string \<Rightarrow> ('x \<Rightarrow> 'w \<Rightarrow> (pyerror + 'a) \<times> 'x \<times> 'w) \<Rightarrow> 'x \<Rightarrow> 'w
    \<Rightarrow> (pyerror + 'a) \<times> 'x \<times> 'w" where
  "circuit_call E key f x w =
     (let (admitted, w1) = cb_before E key w in
      if \<not> admitted then (Inl CircuitBreakerError, x, w1)
      else
        (case f x w1 of
          (Inr v, x', w2) \<Rightarrow> (Inr v, x', cb_success E key w2)
        | (Inl e, x', w2) \<Rightarrow>
            (let (tripped, w3) = cb_failure E key e w2 in
             (Inl (if tripped then CircuitBreakerError else e), x', w3))))"

section \<open>DockerPool\<close>

text \<open>
  The pool after \<^verbatim>\<open>__init__\<close>: the farms in declaration order, each a pattern
  (\<open>None\<close> for a farm without one) with its host clients; the dictionaries
  \<^verbatim>\<open>max_running\<close> and \<^verbatim>\<open>clients\<close> as association lists.
\<close>

record 'r docker_pool =
  clients_per_regex :: "('r option \<times> client_t list) list"
  max_running :: "('r option \<times> int) list"
  clients :: "(string \<times> client_t) list"

text \<open>The inner function \<^verbatim>\<open>ps\<close> of \<^verbatim>\<open>refresh_circuits\<close>: list the containers, drop the answer.\<close>

definition ps :: "('w, 'r) env \<Rightarrow> docker_client \<Rightarrow> unit \<Rightarrow> 'w \<Rightarrow> (pyerror + unit) \<times> unit \<times> 'w" where
  "ps E client u w =
     (case containers_list E client False NoFilter w of
       (Inl e, w') \<Rightarrow> (Inl (raise_ext e), (), w')
     | (Inr cs, w') \<Rightarrow> (Inr (), (), w'))"

text \<open>
  \<^verbatim>\<open>DockerPool.refresh_circuits\<close>: a blacklisted host is passed over; the probe of any
  other host runs through its breaker, and only \<^verbatim>\<open>CircuitBreakerError\<close> is caught.
\<close>

fun refresh_circuits ::
  "('w, 'r) env \<Rightarrow> client_t list \<Rightarrow> string set \<Rightarrow> 'w \<Rightarrow> (pyerror + unit) \<times> 'w" where
  "refresh_circuits E [] blacklisted_hosts w = (Inr (), w)"
| "refresh_circuits E ((host, port, client) # rest) blacklisted_hosts w =
     (if address host port \<in> blacklisted_hosts then refresh_circuits E rest blacklisted_hosts w
      else
        (case circuit_call E (address host port) (ps E client) () w of
          (Inr u, x, w') \<Rightarrow> refresh_circuits E rest blacklisted_hosts w'
        | (Inl e, x, w') \<Rightarrow>
            if e = CircuitBreakerError then refresh_circuits E rest blacklisted_hosts w'
            else (Inl e, w')))"

text \<open>\<^verbatim>\<open>regex is not None and not regex.match(task_id)\<close>: the farm is passed over.\<close>

definition farm_skipped :: "('w, 'r) env \<Rightarrow> 'r option \<Rightarrow> string \<Rightarrow> bool" where
  "farm_skipped E regex task_id =
     (case regex of None \<Rightarrow> False | Some r \<Rightarrow> \<not> re_match E r task_id)"

text \<open>The list comprehension \<^verbatim>\<open>filtered\<close> of \<^verbatim>\<open>get_client\<close>.\<close>

definition filtered_clients ::
  "('w, 'r) env \<Rightarrow> string set \<Rightarrow> 'w \<Rightarrow> client_t list \<Rightarrow> client_t list" where
  "filtered_clients E blacklist w cs =
     filter (\<lambda>(host, port, client).
        address host port \<notin> blacklist \<and> cb_state E (address host port) w = ''closed'') cs"

text \<open>
  \<^verbatim>\<open>random.choice(filtered)\<close> on a non-empty list: the element at some index below
  its length.  The random draw is the parameter \<open>rnd\<close>.
\<close>

definition random_choice :: "nat \<Rightarrow> 'a list \<Rightarrow> 'a" where
  "random_choice rnd xs = xs ! (rnd mod length xs)"

definition no_host_msg :: "string \<Rightarrow> string" where
  "no_host_msg task_id = ''Failed to find a docker host for task id '' @ task_id @ ''.''"

text \<open>The loop of \<^verbatim>\<open>get_client\<close> over the farms, and the error after it.\<close>

fun get_client_loop ::
  "('w, 'r) env \<Rightarrow> ('r option \<times> client_t list) list \<Rightarrow> string \<Rightarrow> string set \<Rightarrow> nat \<Rightarrow> 'w
    \<Rightarrow> (pyerror + client_t) \<times> 'w" where
  "get_client_loop E [] task_id blacklist rnd w = (Inl (RuntimeError (no_host_msg task_id)), w)"
| "get_client_loop E ((regex, cs) # farms) task_id blacklist rnd w =
     (if farm_skipped E regex task_id then get_client_loop E farms task_id blacklist rnd w
      else
        (case refresh_circuits E cs blacklist w of
          (Inl e, w1) \<Rightarrow> (Inl e, w1)
        | (Inr u, w1) \<Rightarrow>
            (let filtered = filtered_clients E blacklist w1 cs in
             if filtered = [] then get_client_loop E farms task_id blacklist rnd w1
             else (Inr (random_choice rnd filtered), w1))))"

text \<open>
  \<^verbatim>\<open>DockerPool.get_client\<close>.  With a host and a port it is the dictionary lookup
  \<^verbatim>\<open>self.clients.get(f"{host}:{port}")\<close>, which may be \<^verbatim>\<open>None\<close>; otherwise it selects.
\<close>

definition get_client ::
  "('w, 'r) env \<Rightarrow> 'r docker_pool \<Rightarrow> string \<Rightarrow> mval \<Rightarrow> mval \<Rightarrow> string set option \<Rightarrow> nat \<Rightarrow> 'w
    \<Rightarrow> (pyerror + client_t option) \<times> 'w" where
  "get_client E pool task_id host port blacklist rnd w =
     (if host \<noteq> MNone \<and> port \<noteq> MNone
      then (Inr (map_of (clients pool) (fmt host @ '':'' @ fmt port)), w)
      else
        (case get_client_loop E (clients_per_regex pool) task_id
                (case blacklist of None \<Rightarrow> {} | Some b \<Rightarrow> b) rnd w of
          (Inl e, w') \<Rightarrow> (Inl e, w')
        | (Inr c, w') \<Rightarrow> (Inr (Some c), w')))"

text \<open>\<^verbatim>\<open>host, port, cl = ...\<close>: unpacking \<^verbatim>\<open>None\<close> raises \<^verbatim>\<open>TypeError\<close>.\<close>

definition unpack :: "client_t option \<Rightarrow> pyerror + client_t" where
  "unpack r = (case r of None \<Rightarrow> Inl TypeError | Some c \<Rightarrow> Inr c)"

section \<open>Executor\<close>

text \<open>\<^verbatim>\<open>execution.metadata[key]\<close>: a missing key raises \<^verbatim>\<open>KeyError\<close>.\<close>

definition md_get :: "metadata \<Rightarrow> string \<Rightarrow> pyerror + mval" where
  "md_get md k = (case md k of None \<Rightarrow> Inl (KeyError k) | Some v \<Rightarrow> Inr v)"

text \<open>
  \<^verbatim>\<open>Executor.get_blacklisted_hosts\<close>: the members of the shared set, each decoded.
\<close>

definition get_blacklisted_hosts :: "('w, 'r) env \<Rightarrow> 'w \<Rightarrow> pyerror + string set" where
  "get_blacklisted_hosts E w =
     (case redis_smembers E blacklist_key w of
       Inl e \<Rightarrow> Inl (raise_ext e)
     | Inr hosts \<Rightarrow>
         (case those (map (decode_utf8 E) hosts) of
           None \<Rightarrow> Inl UnicodeDecodeError
         | Some hs \<Rightarrow> Inr (set hs)))"

text \<open>
  \<^verbatim>\<open>if blacklisted_hosts is None: blacklisted_hosts = self.get_blacklisted_hosts()\<close>.
\<close>

definition blacklist_or_shared ::
  "('w, 'r) env \<Rightarrow> string set option \<Rightarrow> 'w \<Rightarrow> pyerror + string set" where
  "blacklist_or_shared E blacklisted_hosts w =
     (case blacklisted_hosts of None \<Rightarrow> get_blacklisted_hosts E w | Some b \<Rightarrow> Inr b)"

text \<open>
  The handler \<^verbatim>\<open>except requests.exceptions.ConnectionError as err: raise
  HostUnavailableError(host, port, err)\<close>: any other error passes through.
\<close>

fun host_unavailable :: "string \<Rightarrow> int \<Rightarrow> ext_error \<Rightarrow> pyerror" where
  "host_unavailable host port (ConnErr m) = HostUnavailableError host port m"
| "host_unavailable host port (ExtErr m) = OtherError m"

text \<open>
  The handler of \<^verbatim>\<open>update_image\<close> and \<^verbatim>\<open>run\<close>, which on a connection error also
  deletes \<^verbatim>\<open>docker_host\<close> and \<^verbatim>\<open>docker_port\<close> from the metadata.
\<close>

fun clear_binding :: "ext_error \<Rightarrow> metadata \<Rightarrow> metadata" where
  "clear_binding (ConnErr m) md = md(''docker_host'' := None, ''docker_port'' := None)"
| "clear_binding (ExtErr m) md = md"

text \<open>The inner function \<^verbatim>\<open>run\<close> of \<^verbatim>\<open>update_image\<close>, which the breaker wraps.\<close>

definition update_image_run ::
  "('w, 'r) env \<Rightarrow> string \<Rightarrow> int \<Rightarrow> docker_client \<Rightarrow> string \<Rightarrow> string \<Rightarrow> metadata \<Rightarrow> 'w
    \<Rightarrow> (pyerror + unit) \<times> metadata \<times> 'w" where
  "update_image_run E host port cl img tag md w =
     (case images_pull E cl img tag w of
       (Inr u, w') \<Rightarrow>
         (Inr (), md(''docker_host'' \<mapsto> MStr host, ''docker_port'' \<mapsto> MInt port), w')
     | (Inl e, w') \<Rightarrow> (Inl (host_unavailable host port e), clear_binding e md, w'))"

text \<open>\<^verbatim>\<open>Executor.update_image\<close>.\<close>

definition update_image ::
  "('w, 'r) env \<Rightarrow> 'r docker_pool \<Rightarrow> string \<Rightarrow> metadata \<Rightarrow> string \<Rightarrow> string
    \<Rightarrow> string set option \<Rightarrow> nat \<Rightarrow> 'w \<Rightarrow> (pyerror + unit) \<times> metadata \<times> 'w" where
  "update_image E pool task_id md img tag blacklisted_hosts rnd w =
     (case blacklist_or_shared E blacklisted_hosts w of
       Inl e \<Rightarrow> (Inl e, md, w)
     | Inr bl \<Rightarrow>
         (case get_client E pool task_id MNone MNone (Some bl) rnd w of
           (Inl e, w1) \<Rightarrow> (Inl e, md, w1)
         | (Inr r, w1) \<Rightarrow>
             (case unpack r of
               Inl e \<Rightarrow> (Inl e, md, w1)
             | Inr (host, port, cl) \<Rightarrow>
                 circuit_call E (address host port)
                   (update_image_run E host port cl img tag) md w1)))"

text \<open>
  The lines \<^verbatim>\<open>h = execution.metadata["docker_host"]\<close>,
  \<^verbatim>\<open>p = execution.metadata["docker_port"]\<close>,
  \<^verbatim>\<open>host, port, cl = self.pool.get_client(self, task_id, h, p)\<close>, with which
  \<^verbatim>\<open>stop_job\<close>, \<^verbatim>\<open>get_result\<close>, \<^verbatim>\<open>get_current_logs\<close>, \<^verbatim>\<open>get_streaming_logs\<close> and
  \<^verbatim>\<open>mark_as_done\<close> find their host, as does \<^verbatim>\<open>run\<close> on a bound execution.
\<close>

definition bound_client ::
  "('w, 'r) env \<Rightarrow> 'r docker_pool \<Rightarrow> string \<Rightarrow> metadata \<Rightarrow> nat \<Rightarrow> 'w
    \<Rightarrow> (pyerror + client_t) \<times> 'w" where
  "bound_client E pool task_id md rnd w =
     (case md_get md ''docker_host'' of
       Inl e \<Rightarrow> (Inl e, w)
     | Inr h \<Rightarrow>
         (case md_get md ''docker_port'' of
           Inl e \<Rightarrow> (Inl e, w)
         | Inr p \<Rightarrow>
             (case get_client E pool task_id h p None rnd w of
               (Inl e, w1) \<Rightarrow> (Inl e, w1)
             | (Inr r, w1) \<Rightarrow> (unpack r, w1))))"

text \<open>
  The first part of \<^verbatim>\<open>Executor.run\<close>: the bound host when the metadata has
  \<^verbatim>\<open>docker_host\<close>, else a fresh selection, which is written to the metadata.
\<close>

definition run_host ::
  "('w, 'r) env \<Rightarrow> 'r docker_pool \<Rightarrow> string \<Rightarrow> metadata \<Rightarrow> string set option \<Rightarrow> nat \<Rightarrow> 'w
    \<Rightarrow> (pyerror + client_t) \<times> metadata \<times> 'w" where
  "run_host E pool task_id md blacklisted_hosts rnd w =
     (if md ''docker_host'' \<noteq> None
      then (case bound_client E pool task_id md rnd w of (r, w1) \<Rightarrow> (r, md, w1))
      else
        (case blacklist_or_shared E blacklisted_hosts w of
          Inl e \<Rightarrow> (Inl e, md, w)
        | Inr bl \<Rightarrow>
            (case get_client E pool task_id MNone MNone (Some bl) rnd w of
              (Inl e, w1) \<Rightarrow> (Inl e, md, w1)
            | (Inr r, w1) \<Rightarrow>
                (case unpack r of
                  Inl e \<Rightarrow> (Inl e, md, w1)
                | Inr (host, port, cl) \<Rightarrow>
                    (Inr (host, port, cl),
                     md(''docker_host'' \<mapsto> MStr host, ''docker_port'' \<mapsto> MInt port), w1)))))"

text \<open>
  The inner function \<^verbatim>\<open>run\<close> of \<^verbatim>\<open>Executor.run\<close>: the container is named
  \<^verbatim>\<open>f"{job_prefix}-{execution.execution_id}"\<close> and its id is stored.
\<close>

definition run_run ::
  "('w, 'r) env \<Rightarrow> string \<Rightarrow> int \<Rightarrow> docker_client \<Rightarrow> string \<Rightarrow> string \<Rightarrow> string \<Rightarrow> string
    \<Rightarrow> (string \<times> string) list \<Rightarrow> metadata \<Rightarrow> 'w \<Rightarrow> (pyerror + unit) \<times> metadata \<times> 'w" where
  "run_run E host port cl execution_id img tag command envs md w =
     (case containers_run E cl (img @ '':'' @ tag) (job_prefix @ ''-'' @ execution_id)
             command envs w of
       (Inr c, w') \<Rightarrow> (Inr (), md(''container_id'' \<mapsto> MStr (cid c)), w')
     | (Inl e, w') \<Rightarrow> (Inl (host_unavailable host port e), clear_binding e md, w'))"

text \<open>\<^verbatim>\<open>Executor.run\<close>; it returns \<^verbatim>\<open>True\<close>.\<close>

definition run ::
  "('w, 'r) env \<Rightarrow> 'r docker_pool \<Rightarrow> string \<Rightarrow> string \<Rightarrow> metadata \<Rightarrow> string \<Rightarrow> string \<Rightarrow> string
    \<Rightarrow> (string \<times> string) list \<Rightarrow> string set option \<Rightarrow> nat \<Rightarrow> 'w
    \<Rightarrow> (pyerror + bool) \<times> metadata \<times> 'w" where
  "run E pool task_id execution_id md img tag command envs blacklisted_hosts rnd w =
     (case run_host E pool task_id md blacklisted_hosts rnd w of
       (Inl e, md1, w1) \<Rightarrow> (Inl e, md1, w1)
     | (Inr (host, port, cl), md1, w1) \<Rightarrow>
         (case circuit_call E (address host port)
                 (run_run E host port cl execution_id img tag command envs) md1 w1 of
           (Inl e, md2, w2) \<Rightarrow> (Inl e, md2, w2)
         | (Inr u, md2, w2) \<Rightarrow> (Inr True, md2, w2)))"

text \<open>The inner function \<^verbatim>\<open>run\<close> of \<^verbatim>\<open>stop_job\<close>.\<close>

definition stop_job_run ::
  "('w, 'r) env \<Rightarrow> string \<Rightarrow> int \<Rightarrow> docker_client \<Rightarrow> metadata \<Rightarrow> 'w
    \<Rightarrow> (pyerror + unit) \<times> metadata \<times> 'w" where
  "stop_job_run E host port cl md w =
     (case md_get md ''container_id'' of
       Inl e \<Rightarrow> (Inl e, md, w)
     | Inr container_id \<Rightarrow>
         (case containers_get E cl container_id w of
           (Inl e, w1) \<Rightarrow> (Inl (host_unavailable host port e), md, w1)
         | (Inr c, w1) \<Rightarrow>
             (case container_stop E cl c w1 of
               (Inl e, w2) \<Rightarrow> (Inl (host_unavailable host port e), md, w2)
             | (Inr u, w2) \<Rightarrow> (Inr (), md, w2))))"

text \<open>\<^verbatim>\<open>Executor.stop_job\<close>: without a \<^verbatim>\<open>container_id\<close> it warns and returns.\<close>

definition stop_job ::
  "('w, 'r) env \<Rightarrow> 'r docker_pool \<Rightarrow> string \<Rightarrow> metadata \<Rightarrow> nat \<Rightarrow> 'w
    \<Rightarrow> (pyerror + unit) \<times> metadata \<times> 'w" where
  "stop_job E pool task_id md rnd w =
     (if md ''container_id'' = None then (Inr (), md, w)
      else
        (case bound_client E pool task_id md rnd w of
          (Inl e, w1) \<Rightarrow> (Inl e, md, w1)
        | (Inr (host, port, cl), w1) \<Rightarrow>
            circuit_call E (address host port) (stop_job_run E host port cl) md w1))"

text \<open>The inner function \<^verbatim>\<open>run\<close> of \<^verbatim>\<open>get_result\<close>: it fetches the container.\<close>

definition get_result_run ::
  "('w, 'r) env \<Rightarrow> string \<Rightarrow> int \<Rightarrow> docker_client \<Rightarrow> metadata \<Rightarrow> 'w
    \<Rightarrow> (pyerror + container) \<times> metadata \<times> 'w" where
  "get_result_run E host port cl md w =
     (case md_get md ''container_id'' of
       Inl e \<Rightarrow> (Inl e, md, w)
     | Inr container_id \<Rightarrow>
         (case containers_get E cl container_id w of
           (Inl e, w1) \<Rightarrow> (Inl (host_unavailable host port e), md, w1)
         | (Inr c, w1) \<Rightarrow> (Inr c, md, w1)))"

text \<open>The text \<^verbatim>\<open>"\n\nstderr:\n"\<close> that precedes the appended stderr.\<close>

definition stderr_header :: string where
  "stderr_header = [CHR 0x0A, CHR 0x0A] @ ''stderr:'' @ [CHR 0x0A]"

text \<open>
  The second part of \<^verbatim>\<open>get_result\<close>, from \<^verbatim>\<open>result = ExecutionResult(...)\<close> to
  \<^verbatim>\<open>return result\<close>.  \<^verbatim>\<open>convert_date\<close> raises \<^verbatim>\<open>ValueError\<close> on a string it cannot
  parse; the two calls of \<^verbatim>\<open>container.logs\<close> are outside the breaker and outside
  any handler.  \<^verbatim>\<open>result.error\<close> is the engine's \<^verbatim>\<open>state["Error"]\<close> when it is tested.
\<close>

definition container_result ::
  "('w, 'r) env \<Rightarrow> docker_client \<Rightarrow> container \<Rightarrow> 'w \<Rightarrow> (pyerror + execution_result) \<times> 'w" where
  "container_result E cl c w =
     (let result = (ExecutionResult (STATUS_get (cstatus c)))
            \<lparr>exit_code := Some (state_exit_code c), error := PStr (state_error c)\<rparr>
      in
        (case parse_date E (state_started_at c) of
          None \<Rightarrow> (Inl ValueError, w)
        | Some started \<Rightarrow>
            if status result = Done \<or> status result = Failed then
              (case parse_date E (state_finished_at c) of
                None \<Rightarrow> (Inl ValueError, w)
              | Some finished \<Rightarrow>
                  (case container_logs E cl c True False w of
                    (Inl e, w1) \<Rightarrow> (Inl (raise_ext e), w1)
                  | (Inr out, w1) \<Rightarrow>
                      (case container_logs E cl c False True w1 of
                        (Inl e, w2) \<Rightarrow> (Inl (raise_ext e), w2)
                      | (Inr err, w2) \<Rightarrow>
                          (Inr (result
                             \<lparr>started_at := Some started, finished_at := Some finished,
                              log := Some out,
                              error :=
                                (if state_error c \<noteq> []
                                 then PStr (state_error c @ stderr_header @ bytes_repr err)
                                 else PBytes err)\<rparr>), w2))))
            else (Inr (result\<lparr>started_at := Some started\<rparr>), w)))"

text \<open>\<^verbatim>\<open>Executor.get_result\<close>.\<close>

definition get_result ::
  "('w, 'r) env \<Rightarrow> 'r docker_pool \<Rightarrow> string \<Rightarrow> metadata \<Rightarrow> nat \<Rightarrow> 'w
    \<Rightarrow> (pyerror + execution_result) \<times> metadata \<times> 'w" where
  "get_result E pool task_id md rnd w =
     (case bound_client E pool task_id md rnd w of
       (Inl e, w1) \<Rightarrow> (Inl e, md, w1)
     | (Inr (host, port, cl), w1) \<Rightarrow>
         (case circuit_call E (address host port) (get_result_run E host port cl) md w1 of
           (Inl e, md2, w2) \<Rightarrow> (Inl e, md2, w2)
         | (Inr c, md2, w2) \<Rightarrow>
             (case container_result E cl c w2 of (r, w3) \<Rightarrow> (r, md2, w3))))"

text \<open>\<^verbatim>\<open>Executor.get_current_logs\<close>: no breaker and no handler.\<close>

definition get_current_logs ::
  "('w, 'r) env \<Rightarrow> 'r docker_pool \<Rightarrow> string \<Rightarrow> metadata \<Rightarrow> nat \<Rightarrow> 'w
    \<Rightarrow> (pyerror + string) \<times> metadata \<times> 'w" where
  "get_current_logs E pool task_id md rnd w =
     (case bound_client E pool task_id md rnd w of
       (Inl e, w1) \<Rightarrow> (Inl e, md, w1)
     | (Inr (host, port, cl), w1) \<Rightarrow>
         (case md_get md ''container_id'' of
           Inl e \<Rightarrow> (Inl e, md, w1)
         | Inr container_id \<Rightarrow>
             (case containers_get E cl container_id w1 of
               (Inl e, w2) \<Rightarrow> (Inl (raise_ext e), md, w2)
             | (Inr c, w2) \<Rightarrow>
                 (case container_logs E cl c True True w2 of
                   (Inl e, w3) \<Rightarrow> (Inl (raise_ext e), md, w3)
                 | (Inr bs, w3) \<Rightarrow>
                     (case decode_utf8 E bs of
                       None \<Rightarrow> (Inl UnicodeDecodeError, md, w3)
                     | Some lg \<Rightarrow> (Inr lg, md, w3))))))"

text \<open>
  The loop \<^verbatim>\<open>for log in container.logs(..., stream=True): yield log.decode("utf-8")\<close>
  inside the handler of \<^verbatim>\<open>get_streaming_logs\<close>: the chunks yielded, and the error
  that ends the generator, if any.  The stream delivers \<open>chunks\<close> and then raises
  \<open>err\<close> when it is not \<open>None\<close>.
\<close>

fun stream_decode ::
  "('w, 'r) env \<Rightarrow> string \<Rightarrow> int \<Rightarrow> string list \<Rightarrow> ext_error option
    \<Rightarrow> string list \<times> pyerror option" where
  "stream_decode E host port [] err = ([], map_option (host_unavailable host port) err)"
| "stream_decode E host port (b # bs) err =
     (case decode_utf8 E b of
       None \<Rightarrow> ([], Some UnicodeDecodeError)
     | Some s \<Rightarrow>
         (case stream_decode E host port bs err of (ys, e) \<Rightarrow> (s # ys, e)))"

text \<open>
  \<^verbatim>\<open>Executor.get_streaming_logs\<close>, a generator, read to its end: what it yields and
  the error it raises.  Its body starts to run at the first \<^verbatim>\<open>next\<close>.
\<close>

definition get_streaming_logs ::
  "('w, 'r) env \<Rightarrow> 'r docker_pool \<Rightarrow> string \<Rightarrow> metadata \<Rightarrow> nat \<Rightarrow> 'w
    \<Rightarrow> (string list \<times> pyerror option) \<times> metadata \<times> 'w" where
  "get_streaming_logs E pool task_id md rnd w =
     (case bound_client E pool task_id md rnd w of
       (Inl e, w1) \<Rightarrow> (([], Some e), md, w1)
     | (Inr (host, port, cl), w1) \<Rightarrow>
         (case md_get md ''container_id'' of
           Inl e \<Rightarrow> (([], Some e), md, w1)
         | Inr container_id \<Rightarrow>
             (case containers_get E cl container_id w1 of
               (Inl e, w2) \<Rightarrow> (([], Some (host_unavailable host port e)), md, w2)
             | (Inr c, w2) \<Rightarrow>
                 (case container_logs_stream E cl c w2 of
                   ((chunks, err), w3) \<Rightarrow> (stream_decode E host port chunks err, md, w3)))))"

text \<open>\<^verbatim>\<open>new_name = f"defunct-{container.name}"\<close>.\<close>

definition defunct_name :: "container \<Rightarrow> string" where
  "defunct_name c = ''defunct-'' @ cname c"

text \<open>\<^verbatim>\<open>Executor.mark_as_done\<close>: a handler and no breaker.\<close>

definition mark_as_done ::
  "('w, 'r) env \<Rightarrow> 'r docker_pool \<Rightarrow> string \<Rightarrow> metadata \<Rightarrow> nat \<Rightarrow> 'w
    \<Rightarrow> (pyerror + unit) \<times> metadata \<times> 'w" where
  "mark_as_done E pool task_id md rnd w =
     (case bound_client E pool task_id md rnd w of
       (Inl e, w1) \<Rightarrow> (Inl e, md, w1)
     | (Inr (host, port, cl), w1) \<Rightarrow>
         (case md_get md ''container_id'' of
           Inl e \<Rightarrow> (Inl e, md, w1)
         | Inr container_id \<Rightarrow>
             (case containers_get E cl container_id w1 of
               (Inl e, w2) \<Rightarrow> (Inl (host_unavailable host port e), md, w2)
             | (Inr c, w2) \<Rightarrow>
                 (case container_rename E cl c (defunct_name c) w2 of
                   (Inl e, w3) \<Rightarrow> (Inl (host_unavailable host port e), md, w3)
                 | (Inr u, w3) \<Rightarrow> (Inr (), md, w3)))))"

text \<open>
  An entry of the list \<^verbatim>\<open>remove_done\<close> returns: \<^verbatim>\<open>host\<close>, \<^verbatim>\<open>name\<close>, \<^verbatim>\<open>id\<close>, \<^verbatim>\<open>image\<close>.
\<close>

type_synonym removed = "string \<times> string \<times> string \<times> string"

text \<open>
  The inner loop of \<^verbatim>\<open>remove_done\<close>.  \<^verbatim>\<open>container.image.attrs["RepoTags"][0]\<close> asks
  the engine for the image and raises \<^verbatim>\<open>IndexError\<close> when it has no tag.
\<close>

fun remove_containers ::
  "('w, 'r) env \<Rightarrow> string \<Rightarrow> int \<Rightarrow> docker_client \<Rightarrow> container list \<Rightarrow> removed list \<Rightarrow> 'w
    \<Rightarrow> (pyerror + removed list) \<times> 'w" where
  "remove_containers E host port client [] removed_containers w = (Inr removed_containers, w)"
| "remove_containers E host port client (c # cs) removed_containers w =
     (case container_repo_tags E client c w of
       (Inl e, w1) \<Rightarrow> (Inl (raise_ext e), w1)
     | (Inr tags, w1) \<Rightarrow>
         (case tags of
           [] \<Rightarrow> (Inl IndexError, w1)
         | t # ts \<Rightarrow>
             (case container_remove E client c w1 of
               (Inl e, w2) \<Rightarrow> (Inl (raise_ext e), w2)
             | (Inr u, w2) \<Rightarrow>
                 remove_containers E host port client cs
                   (removed_containers @ [(address host port, cname c, cid c, t)]) w2)))"

fun remove_done_loop ::
  "('w, 'r) env \<Rightarrow> client_t list \<Rightarrow> removed list \<Rightarrow> 'w \<Rightarrow> (pyerror + removed list) \<times> 'w" where
  "remove_done_loop E [] removed_containers w = (Inr removed_containers, w)"
| "remove_done_loop E ((host, port, client) # rest) removed_containers w =
     (case containers_list E client True (NameFilter (''defunct-'' @ job_prefix)) w of
       (Inl e, w1) \<Rightarrow> (Inl (raise_ext e), w1)
     | (Inr cs, w1) \<Rightarrow>
         (case remove_containers E host port client cs removed_containers w1 of
           (Inl e, w2) \<Rightarrow> (Inl e, w2)
         | (Inr removed_containers', w2) \<Rightarrow> remove_done_loop E rest removed_containers' w2))"

text \<open>\<^verbatim>\<open>Executor.remove_done\<close>: every client of the pool, no breaker, no handler.\<close>

definition remove_done ::
  "('w, 'r) env \<Rightarrow> 'r docker_pool \<Rightarrow> 'w \<Rightarrow> (pyerror + removed list) \<times> 'w" where
  "remove_done E pool w = remove_done_loop E (map snd (clients pool)) [] w"

subsection \<open>Listing and the capacity check\<close>

text \<open>
  \<^verbatim>\<open>Executor._get_all_clients\<close>: every client of the pool, or, for a pattern, the
  clients of the first farm that has no pattern or has that pattern.
\<close>

definition get_all_clients :: "'r docker_pool \<Rightarrow> 'r option \<Rightarrow> client_t list" where
  "get_all_clients pool regex =
     (case regex of
       None \<Rightarrow> map snd (clients pool)
     | Some rx \<Rightarrow>
         (case find (\<lambda>(r, cl). \<not> (r \<noteq> None \<and> r \<noteq> Some rx)) (clients_per_regex pool) of
           None \<Rightarrow> map snd (clients pool)
         | Some (r, cl) \<Rightarrow> cl))"

text \<open>\<^verbatim>\<open>name.startswith(prefix)\<close>.\<close>

definition startswith :: "string \<Rightarrow> string \<Rightarrow> bool" where
  "startswith name pre \<longleftrightarrow> take (length pre) name = pre"

text \<open>The inner function \<^verbatim>\<open>run\<close> of \<^verbatim>\<open>_list_containers\<close>, and the wrapped call.\<close>

definition list_containers_run ::
  "('w, 'r) env \<Rightarrow> string \<Rightarrow> int \<Rightarrow> docker_client \<Rightarrow> unit \<Rightarrow> 'w
    \<Rightarrow> (pyerror + (string \<times> int \<times> string) list) \<times> unit \<times> 'w" where
  "list_containers_run E host port client u w =
     (case containers_list E client False (StatusFilter ''running'') w of
       (Inl e, w1) \<Rightarrow> (Inl (raise_ext e), (), w1)
     | (Inr cs, w1) \<Rightarrow>
         (Inr (map (\<lambda>c. (host, port, cid c))
                 (filter (\<lambda>c. startswith (cname c) job_prefix) cs)), (), w1))"

definition list_containers ::
  "('w, 'r) env \<Rightarrow> string \<Rightarrow> int \<Rightarrow> docker_client \<Rightarrow> 'w
    \<Rightarrow> (pyerror + (string \<times> int \<times> string) list) \<times> unit \<times> 'w" where
  "list_containers E host port client w =
     circuit_call E (address host port) (list_containers_run E host port client) () w"

text \<open>
  The loop of \<^verbatim>\<open>get_running_containers\<close>: a blacklisted host is recorded as
  unavailable, and so is a host whose listing raises anything.
\<close>

fun running_loop ::
  "('w, 'r) env \<Rightarrow> string set \<Rightarrow> client_t list \<Rightarrow> (string \<times> int \<times> string) list
    \<Rightarrow> (string \<times> int \<times> pyerror) list \<Rightarrow> 'w
    \<Rightarrow> ((string \<times> int \<times> string) list \<times> (string \<times> int \<times> pyerror) list) \<times> 'w" where
  "running_loop E bl [] rs unavailable_clients w = ((rs, unavailable_clients), w)"
| "running_loop E bl ((host, port, client) # rest) rs unavailable_clients w =
     (if address host port \<in> bl
      then running_loop E bl rest rs
             (unavailable_clients @ [(host, port, RuntimeError ''server is blacklisted'')]) w
      else
        (case list_containers E host port client w of
          (Inr found, u, w1) \<Rightarrow> running_loop E bl rest (rs @ found) unavailable_clients w1
        | (Inl e, u, w1) \<Rightarrow>
            running_loop E bl rest rs (unavailable_clients @ [(host, port, e)]) w1))"

text \<open>
  The dictionary \<^verbatim>\<open>get_running_containers\<close> returns.  An available entry is
  (host, port, blacklisted, circuit); an unavailable one carries the error too.
\<close>

record containers_report =
  available :: "(string \<times> int \<times> bool \<times> string) list"
  unavailable :: "(string \<times> int \<times> bool \<times> string \<times> pyerror) list"
  running :: "(string \<times> int \<times> string) list"

definition get_running_containers ::
  "('w, 'r) env \<Rightarrow> 'r docker_pool \<Rightarrow> 'r option \<Rightarrow> string set option \<Rightarrow> 'w
    \<Rightarrow> (pyerror + containers_report) \<times> 'w" where
  "get_running_containers E pool regex blacklisted_hosts w =
     (case blacklist_or_shared E blacklisted_hosts w of
       Inl e \<Rightarrow> (Inl e, w)
     | Inr bl \<Rightarrow>
         (let cs = get_all_clients pool regex in
          (case running_loop E bl cs [] [] w of
            ((rs, unavailable_clients), w1) \<Rightarrow>
              (Inr \<lparr>available =
                      map (\<lambda>(host, port, client).
                            (host, port, address host port \<in> bl, cb_state E (address host port) w1))
                        (filter (\<lambda>(host, port, client).
                            address host port
                              \<notin> set (map (\<lambda>(h, p, e). address h p) unavailable_clients)) cs),
                    unavailable =
                      map (\<lambda>(host, port, err).
                            (host, port, address host port \<in> bl,
                             cb_state E (address host port) w1, err)) unavailable_clients,
                    running = rs\<rparr>, w1))))"

text \<open>
  \<^verbatim>\<open>Executor.validate_max_running_executions\<close>: the first farm that is not passed
  over decides; with no such farm both counts stay \<^verbatim>\<open>0\<close>.
\<close>

definition validate_max_running_executions ::
  "('w, 'r) env \<Rightarrow> 'r docker_pool \<Rightarrow> string \<Rightarrow> 'w \<Rightarrow> (pyerror + bool) \<times> 'w" where
  "validate_max_running_executions E pool task_id w =
     (case find (\<lambda>(regex, cs). \<not> farm_skipped E regex task_id) (clients_per_regex pool) of
       None \<Rightarrow> (Inr (capacity_ok 0 0), w)
     | Some (regex, cs) \<Rightarrow>
         (case get_running_containers E pool regex None w of
           (Inl e, w1) \<Rightarrow> (Inl e, w1)
         | (Inr report, w1) \<Rightarrow>
             (case map_of (max_running pool) regex of
               None \<Rightarrow> (Inl (KeyError ''max_running''), w1)
             | Some m \<Rightarrow> (Inr (capacity_ok (int (length (running report))) m), w1))))"

section \<open>The hypothesis of the selection failure\<close>

text \<open>
  The farms are examined in declaration order.  A farm yields no host when it is
  passed over, or when its refresh step completes and leaves no host that is both
  outside the blacklist and behind a closed breaker.  \<open>no_farm_yields\<close> holds when
  that is so for every farm, each seen in the state its predecessors left.
\<close>

fun no_farm_yields ::
  "('w, 'r) env \<Rightarrow> ('r option \<times> client_t list) list \<Rightarrow> string \<Rightarrow> string set \<Rightarrow> 'w \<Rightarrow> bool" where
  "no_farm_yields E [] task_id blacklist w = True"
| "no_farm_yields E ((regex, cs) # farms) task_id blacklist w =
     (if farm_skipped E regex task_id then no_farm_yields E farms task_id blacklist w
      else
        (case refresh_circuits E cs blacklist w of
          (Inl e, w1) \<Rightarrow> False
        | (Inr u, w1) \<Rightarrow>
            filtered_clients E blacklist w1 cs = [] \<and> no_farm_yields E farms task_id blacklist w1))"

section \<open>A small engine for concrete runs\<close>

text \<open>
  The theorems are instantiated on a concrete environment.  Its state lists the
  engine handles that refuse connections, the keys whose breaker is open, whether a
  single failure trips a breaker, the members of the shared blacklist and the
  containers by id.  A pattern is a literal that the task id must start with.
\<close>

record sim_world =
  sw_down :: "string list"
  sw_open :: "string list"
  sw_trip :: bool
  sw_blacklist :: "string list"
  sw_containers :: "(string \<times> container) list"

definition sim_refused :: ext_error where
  "sim_refused = ConnErr ''connection refused''"

definition sim_new_container :: "string \<Rightarrow> container" where
  "sim_new_container name =
     \<lparr>cid = ''id-'' @ name, cname = name, cstatus = ''created'', state_exit_code = 0,
      state_error = [], state_started_at = ''2024-01-01T00:00:00Z'',
      state_finished_at = ''0001-01-01T00:00:00Z''\<rparr>"

definition sim_find :: "sim_world \<Rightarrow> mval \<Rightarrow> container option" where
  "sim_find w v = (case v of MStr i \<Rightarrow> map_of (sw_containers w) i | _ \<Rightarrow> None)"

definition sim_put :: "container \<Rightarrow> sim_world \<Rightarrow> sim_world" where
  "sim_put c w =
     w\<lparr>sw_containers :=
         (cid c, c) # filter (\<lambda>(i, x). i \<noteq> cid c) (sw_containers w)\<rparr>"

definition sim_selected :: "bool \<Rightarrow> list_filter \<Rightarrow> container \<Rightarrow> bool" where
  "sim_selected all_containers f c =
     ((all_containers \<or> cstatus c = ''running'') \<and>
      (case f of
        NoFilter \<Rightarrow> True
      | StatusFilter s \<Rightarrow> cstatus c = s
      | NameFilter n \<Rightarrow> startswith (cname c) n))"

definition sim_env :: "(sim_world, string) env" where
  "sim_env =
     \<lparr>re_match = (\<lambda>pattern task_id. startswith task_id pattern),
      cb_before = (\<lambda>key w. (key \<notin> set (sw_open w), w)),
      cb_success = (\<lambda>key w. w),
      cb_failure =
        (\<lambda>key e w. if sw_trip w then (True, w\<lparr>sw_open := key # sw_open w\<rparr>) else (False, w)),
      cb_state = (\<lambda>key w. if key \<in> set (sw_open w) then ''open'' else ''closed''),
      redis_smembers = (\<lambda>key w. Inr (sw_blacklist w)),
      decode_utf8 = (\<lambda>bs. Some bs),
      parse_date = (\<lambda>s. if s = [] then None else Some (Datetime (int (length s)))),
      images_pull =
        (\<lambda>cl img tag w. if cl \<in> set (sw_down w) then (Inl sim_refused, w) else (Inr (), w)),
      containers_run =
        (\<lambda>cl img name command envs w.
           if cl \<in> set (sw_down w) then (Inl sim_refused, w)
           else (Inr (sim_new_container name), sim_put (sim_new_container name) w)),
      containers_get =
        (\<lambda>cl v w.
           if cl \<in> set (sw_down w) then (Inl sim_refused, w)
           else (case sim_find w v of
                  None \<Rightarrow> (Inl (ExtErr ''no such container''), w)
                | Some c \<Rightarrow> (Inr c, w))),
      containers_list =
        (\<lambda>cl all_containers f w.
           if cl \<in> set (sw_down w) then (Inl sim_refused, w)
           else (Inr (filter (sim_selected all_containers f) (map snd (sw_containers w))), w)),
      container_stop =
        (\<lambda>cl c w.
           if cl \<in> set (sw_down w) then (Inl sim_refused, w)
           else (Inr (), sim_put (c\<lparr>cstatus := ''exited''\<rparr>) w)),
      container_rename =
        (\<lambda>cl c new_name w.
           if cl \<in> set (sw_down w) then (Inl sim_refused, w)
           else (Inr (), sim_put (c\<lparr>cname := new_name\<rparr>) w)),
      container_remove =
        (\<lambda>cl c w.
           if cl \<in> set (sw_down w) then (Inl sim_refused, w)
           else (Inr (),
                 w\<lparr>sw_containers := filter (\<lambda>(i, x). i \<noteq> cid c) (sw_containers w)\<rparr>)),
      container_logs =
        (\<lambda>cl c out err w.
           if cl \<in> set (sw_down w) then (Inl sim_refused, w)
           else (Inr ((if out then ''out'' else []) @ (if err then ''err'' else [])), w)),
      container_logs_stream =
        (\<lambda>cl c w.
           if cl \<in> set (sw_down w) then (([], Some sim_refused), w)
           else (([''out'', ''err''], None), w)),
      container_repo_tags = (\<lambda>cl c w. (Inr [''image:latest''], w))\<rparr>"

text \<open>
  Two farms, as in the routing scenario of the specification: tasks whose id starts
  with \<^verbatim>\<open>gpu-\<close> go to \<^verbatim>\<open>hgpu:2375\<close>, every task may go to \<^verbatim>\<open>hcpu:2375\<close>.
\<close>

definition sim_pool :: "string docker_pool" where
  "sim_pool =
     \<lparr>clients_per_regex =
        [(Some ''gpu-'', [(''hgpu'', 2375, ''hgpu:2375'')]),
         (None, [(''hcpu'', 2375, ''hcpu:2375'')])],
      max_running = [(Some ''gpu-'', 4), (None, 8)],
      clients =
        [(''hgpu:2375'', (''hgpu'', 2375, ''hgpu:2375'')),
         (''hcpu:2375'', (''hcpu'', 2375, ''hcpu:2375''))]\<rparr>"

text \<open>A quiet world: every host answers, every breaker is closed, nothing runs.\<close>

definition sim_quiet :: sim_world where
  "sim_quiet =
     \<lparr>sw_down = [], sw_open = [], sw_trip = False, sw_blacklist = [], sw_containers = []\<rparr>"

text \<open>The binding of an execution whose job runs on \<^verbatim>\<open>hcpu:2375\<close>.\<close>

definition sim_bound :: metadata where
  "sim_bound =
     [''docker_host'' \<mapsto> MStr ''hcpu'', ''docker_port'' \<mapsto> MInt 2375,
      ''container_id'' \<mapsto> MStr ''id-fastlane-job-e1'']"

text \<open>The world after that job has been started.\<close>

definition sim_started :: sim_world where
  "sim_started = sim_put (sim_new_container ''fastlane-job-e1'') sim_quiet"

text \<open>The same world when the job's host has stopped answering.\<close>

definition sim_down :: sim_world where
  "sim_down = sim_started\<lparr>sw_down := [''hcpu:2375'']\<rparr>"

text \<open>The same world when the breaker of the job's host is open.\<close>

definition sim_open :: sim_world where
  "sim_open = sim_started\<lparr>sw_open := [''hcpu:2375'']\<rparr>"

text \<open>
  \<^verbatim>\<open>run\<close> called again for the bound execution while its host does not answer,
  and the metadata that call leaves.
\<close>

definition sim_rerun :: "(pyerror + bool) \<times> metadata \<times> sim_world" where
  "sim_rerun =
     run sim_env sim_pool ''web-1'' ''e1'' sim_bound ''img'' ''v1'' ''echo'' [] None 0 sim_down"

definition sim_cleared :: metadata where
  "sim_cleared = fst (snd sim_rerun)"

text \<open>An engine whose hosts answer the probe and lose the connection during a pull.\<close>

definition sim_env_pull_cut :: "(sim_world, string) env" where
  "sim_env_pull_cut = sim_env\<lparr>images_pull := (\<lambda>cl img tag w. (Inl sim_refused, w))\<rparr>"

text \<open>The world after the job's container has been renamed once, and twice.\<close>

definition sim_marked :: sim_world where
  "sim_marked =
     sim_put ((sim_new_container ''fastlane-job-e1'')\<lparr>cname := ''defunct-fastlane-job-e1''\<rparr>)
       sim_started"

definition sim_marked_twice :: sim_world where
  "sim_marked_twice =
     sim_put
       ((sim_new_container ''fastlane-job-e1'')\<lparr>cname := ''defunct-defunct-fastlane-job-e1''\<rparr>)
       sim_marked"


section \<open>Host selection\<close>

lemma random_choice_mem: "xs \<noteq> [] \<Longrightarrow> random_choice rnd xs \<in> set xs"
  by (simp add: random_choice_def)

lemma filtered_clients_mem:
  "(h, p, cl) \<in> set (filtered_clients E bl w cs) \<longleftrightarrow>
     (h, p, cl) \<in> set cs \<and> address h p \<notin> bl \<and> cb_state E (address h p) w = ''closed''"
  by (simp add: filtered_clients_def)

text \<open>
  A host the loop returns passed the filter of a farm that was not passed over, in
  the state the loop ends in.
\<close>

lemma get_client_loop_eligible:
  "get_client_loop E farms task_id bl rnd w = (Inr c, w') \<Longrightarrow>
     \<exists>f \<in> set farms. \<not> farm_skipped E (fst f) task_id \<and> c \<in> set (filtered_clients E bl w' (snd f))"
proof (induction farms arbitrary: w)
  case Nil
  then show ?case by simp
next
  case (Cons f farms)
  obtain regex cs where f: "f = (regex, cs)" by (cases f)
  show ?case
  proof (cases "farm_skipped E regex task_id")
    case True
    with Cons.prems f have "get_client_loop E farms task_id bl rnd w = (Inr c, w')" by simp
    from Cons.IH [OF this] show ?thesis by auto
  next
    case False
    obtain r w1 where rf: "refresh_circuits E cs bl w = (r, w1)"
      by (cases "refresh_circuits E cs bl w")
    show ?thesis
    proof (cases r)
      case (Inl e)
      with Cons.prems f False rf show ?thesis by simp
    next
      case (Inr u)
      show ?thesis
      proof (cases "filtered_clients E bl w1 cs = []")
        case True
        with Cons.prems f False rf Inr
        have "get_client_loop E farms task_id bl rnd w1 = (Inr c, w')" by simp
        from Cons.IH [OF this] show ?thesis by auto
      next
        case ne: False
        with Cons.prems f False rf Inr
        have "random_choice rnd (filtered_clients E bl w1 cs) = c \<and> w1 = w'"
          by (auto simp add: Let_def)
        with random_choice_mem [OF ne, of rnd]
        have "c \<in> set (filtered_clients E bl w' cs)" by auto
        with f False show ?thesis by auto
      qed
    qed
  qed
qed

text \<open>
  C1.  Called without both a host and a port, \<^verbatim>\<open>get_client\<close> selects.  Whatever the
  task id, the blacklist (none given counts as empty), the random draw and the
  breakers, a selection that returns does return a host, the address
  \<^verbatim>\<open>f"{host}:{port}"\<close> of that host is not in the blacklist, and the breaker of that
  address reads \<^verbatim>\<open>closed\<close> in the state the refresh step left.
\<close>

theorem selection_avoids_blacklist_and_open_breakers:
  assumes "host = MNone \<or> port = MNone"
    and "get_client E pool task_id host port blacklist rnd w = (Inr r, w')"
  shows "\<exists>h p cl. r = Some (h, p, cl)
           \<and> address h p \<notin> (case blacklist of None \<Rightarrow> {} | Some b \<Rightarrow> b)
           \<and> cb_state E (address h p) w' = ''closed''"
proof -
  let ?bl = "case blacklist of None \<Rightarrow> {} | Some b \<Rightarrow> b"
  obtain x w1 where loop: "get_client_loop E (clients_per_regex pool) task_id ?bl rnd w = (x, w1)"
    by (cases "get_client_loop E (clients_per_regex pool) task_id ?bl rnd w")
  from assms loop obtain c where c: "x = Inr c" "r = Some c" "w1 = w'"
    by (cases x) (auto simp: get_client_def)
  obtain h p cl where hpc: "c = (h, p, cl)" by (cases c)
  from get_client_loop_eligible [of E "clients_per_regex pool" task_id ?bl rnd w c w'] loop c
  obtain f :: "'b option \<times> client_t list"
    where "(h, p, cl) \<in> set (filtered_clients E ?bl w' (snd f))"
    using hpc by auto
  then have "address h p \<notin> ?bl \<and> cb_state E (address h p) w' = ''closed''"
    by (simp add: filtered_clients_mem)
  with c hpc show ?thesis by simp
qed

text \<open>
  A run: the task \<^verbatim>\<open>gpu-42\<close> matches both farms, the host of the first farm is
  blacklisted, and the selection returns the host of the second.
\<close>

theorem selection_avoids_blacklist_and_open_breakers_witness:
  "get_client sim_env sim_pool ''gpu-42'' MNone MNone (Some {''hgpu:2375''}) 0 sim_quiet
     = (Inr (Some (''hcpu'', 2375, ''hcpu:2375'')), sim_quiet)
   \<and> address ''hcpu'' 2375 \<notin> {''hgpu:2375''}
   \<and> cb_state sim_env (address ''hcpu'' 2375) sim_quiet = ''closed''"
proof -
  have run: "get_client sim_env sim_pool ''gpu-42'' MNone MNone (Some {''hgpu:2375''}) 0 sim_quiet
     = (Inr (Some (''hcpu'', 2375, ''hcpu:2375'')), sim_quiet)"
    by code_simp
  have "MNone = MNone \<or> MNone = MNone" by simp
  from selection_avoids_blacklist_and_open_breakers [OF this run] run
  show ?thesis by simp
qed


lemma raise_ext_cases:
  "(\<exists>m. raise_ext x = ConnectionError m) \<or> (\<exists>m. raise_ext x = OtherError m)"
  by (cases x) simp_all

lemma circuit_call_ps_error:
  "circuit_call E key (ps E client) () w = (Inl e, x, w') \<Longrightarrow>
     e = CircuitBreakerError \<or> (\<exists>m. e = ConnectionError m) \<or> (\<exists>m. e = OtherError m)"
  using raise_ext_cases
  by (fastforce simp: circuit_call_def ps_def split: prod.splits sum.splits if_splits)

lemma refresh_circuits_error:
  "refresh_circuits E cs bl w = (Inl e, w') \<Longrightarrow>
     (\<exists>m. e = ConnectionError m) \<or> (\<exists>m. e = OtherError m)"
proof (induction cs arbitrary: w)
  case Nil
  then show ?case by simp
next
  case (Cons c cs)
  obtain host port client where c: "c = (host, port, client)" by (cases c)
  show ?case
  proof (cases "address host port \<in> bl")
    case True
    with Cons c show ?thesis by simp
  next
    case False
    obtain r x w1 where cc: "circuit_call E (address host port) (ps E client) () w = (r, x, w1)"
      by (cases "circuit_call E (address host port) (ps E client) () w")
    show ?thesis
    proof (cases r)
      case (Inr u)
      with Cons c False cc show ?thesis by simp
    next
      case (Inl e1)
      show ?thesis
      proof (cases "e1 = CircuitBreakerError")
        case True
        with Cons c False cc Inl show ?thesis by simp
      next
        case ne: False
        with Cons.prems c False cc Inl have "e = e1" by simp
        with circuit_call_ps_error [of E "address host port" client w e1 x w1] cc Inl ne
        show ?thesis by simp
      qed
    qed
  qed
qed

text \<open>
  A refresh lets only the probe's own error escape, so the loop ends with the
  \<^verbatim>\<open>RuntimeError\<close> of its last lines exactly when no farm yields a host.
\<close>

lemma no_farm_yields_iff:
  "no_farm_yields E farms task_id bl w \<longleftrightarrow>
     (\<exists>w'. get_client_loop E farms task_id bl rnd w = (Inl (RuntimeError (no_host_msg task_id)), w'))"
proof (induction farms arbitrary: w)
  case Nil
  then show ?case by simp
next
  case (Cons f farms)
  obtain regex cs where f: "f = (regex, cs)" by (cases f)
  show ?case
  proof (cases "farm_skipped E regex task_id")
    case True
    with Cons f show ?thesis by simp
  next
    case False
    obtain r w1 where rf: "refresh_circuits E cs bl w = (r, w1)"
      by (cases "refresh_circuits E cs bl w")
    show ?thesis
    proof (cases r)
      case (Inl e)
      with refresh_circuits_error [of E cs bl w e w1] rf
      have "e \<noteq> RuntimeError (no_host_msg task_id)" by auto
      with f False rf Inl show ?thesis by simp
    next
      case (Inr u)
      show ?thesis
      proof (cases "filtered_clients E bl w1 cs = []")
        case True
        with Cons.IH [of w1] f False rf Inr show ?thesis by simp
      next
        case ne: False
        with f False rf Inr show ?thesis by (simp add: Let_def)
      qed
    qed
  qed
qed

lemma no_host_msg_inj: "no_host_msg t = no_host_msg task_id \<longleftrightarrow> t = task_id"
  by (simp add: no_host_msg_def)



text \<open>
  C5.  A selection (no host and port given) fails with the \<^verbatim>\<open>RuntimeError\<close> whose
  message is \<^verbatim>\<open>f"Failed to find a docker host for task id {task_id}."\<close> when no farm
  yields an eligible host, and only then; the message determines the task id.  The
  error is a \<^verbatim>\<open>RuntimeError\<close>, which no other path of the selection raises:
  a host that fails is a \<^verbatim>\<open>HostUnavailableError\<close>, a probe that fails is the
  engine's own error.
\<close>

theorem no_eligible_host_raises_runtime_error:
  assumes "host = MNone \<or> port = MNone"
  shows "(no_farm_yields E (clients_per_regex pool) task_id
            (case blacklist of None \<Rightarrow> {} | Some b \<Rightarrow> b) w
          \<longleftrightarrow> (\<exists>w'. get_client E pool task_id host port blacklist rnd w
                      = (Inl (RuntimeError (no_host_msg task_id)), w')))
       \<and> (\<forall>t. no_host_msg t = no_host_msg task_id \<longrightarrow> t = task_id)"
proof -
  let ?bl = "case blacklist of None \<Rightarrow> {} | Some b \<Rightarrow> b"
  obtain x w1 where loop: "get_client_loop E (clients_per_regex pool) task_id ?bl rnd w = (x, w1)"
    by (cases "get_client_loop E (clients_per_regex pool) task_id ?bl rnd w")
  from assms loop
  have "(\<exists>w'. get_client E pool task_id host port blacklist rnd w
                      = (Inl (RuntimeError (no_host_msg task_id)), w'))
        \<longleftrightarrow> x = Inl (RuntimeError (no_host_msg task_id))"
    by (cases x) (auto simp: get_client_def)
  moreover have "no_farm_yields E (clients_per_regex pool) task_id ?bl w
        \<longleftrightarrow> x = Inl (RuntimeError (no_host_msg task_id))"
    using no_farm_yields_iff [of E "clients_per_regex pool" task_id ?bl w rnd] loop by simp
  ultimately show ?thesis by (simp add: no_host_msg_inj)
qed

text \<open>
  A run: both hosts are blacklisted, so neither is probed, though one of them is
  down, and the selection fails with the message for \<^verbatim>\<open>gpu-42\<close>.
\<close>

theorem no_eligible_host_raises_runtime_error_witness:
  "no_farm_yields sim_env (clients_per_regex sim_pool) ''gpu-42'' {''hgpu:2375'', ''hcpu:2375''}
      (sim_quiet\<lparr>sw_down := [''hgpu:2375'']\<rparr>)
   \<and> (\<exists>w'. get_client sim_env sim_pool ''gpu-42'' MNone MNone
              (Some {''hgpu:2375'', ''hcpu:2375''}) 7 (sim_quiet\<lparr>sw_down := [''hgpu:2375'']\<rparr>)
         = (Inl (RuntimeError ''Failed to find a docker host for task id gpu-42.''), w'))"
proof -
  have sel: "MNone = MNone \<or> MNone = MNone" by simp
  have hyp: "no_farm_yields sim_env (clients_per_regex sim_pool) ''gpu-42''
      (case Some {''hgpu:2375'', ''hcpu:2375''} of None \<Rightarrow> {} | Some b \<Rightarrow> b)
      (sim_quiet\<lparr>sw_down := [''hgpu:2375'']\<rparr>)"
    by code_simp
  have msg: "no_host_msg ''gpu-42'' = ''Failed to find a docker host for task id gpu-42.''"
    by (simp add: no_host_msg_def)
  have ex: "\<exists>w'. get_client sim_env sim_pool ''gpu-42'' MNone MNone
              (Some {''hgpu:2375'', ''hcpu:2375''}) 7 (sim_quiet\<lparr>sw_down := [''hgpu:2375'']\<rparr>)
         = (Inl (RuntimeError (no_host_msg ''gpu-42'')), w')"
    using no_eligible_host_raises_runtime_error [OF sel, of sim_env sim_pool "''gpu-42''"
      "Some {''hgpu:2375'', ''hcpu:2375''}" "sim_quiet\<lparr>sw_down := [''hgpu:2375'']\<rparr>" 7] hyp
    by blast
  have hyp': "no_farm_yields sim_env (clients_per_regex sim_pool) ''gpu-42''
      {''hgpu:2375'', ''hcpu:2375''} (sim_quiet\<lparr>sw_down := [''hgpu:2375'']\<rparr>)"
    using hyp by (simp only: option.case)
  from ex hyp' show ?thesis unfolding msg by blast
qed

section \<open>The status of a result\<close>

text \<open>
  C6.  The status \<^verbatim>\<open>get_result\<close> gives a result is defined for every status string
  of the engine: \<^verbatim>\<open>created\<close> gives created, \<^verbatim>\<open>running\<close> gives running, \<^verbatim>\<open>exited\<close>
  gives done, \<^verbatim>\<open>dead\<close> gives failed, and every other string gives done.
\<close>

theorem status_mapping_total:
  "STATUS_get s =
     (if s = ''created'' then Created
      else if s = ''running'' then Running
      else if s = ''exited'' then Done
      else if s = ''dead'' then Failed
      else Done)"
  by (simp add: STATUS_get_def STATUS_def)

section \<open>The capacity check\<close>

text \<open>
  The claim C8 says that non-negative counts exist on which
  \<^verbatim>\<open>total_running == 0 or total_running <= max_running\<close> and
  \<^verbatim>\<open>total_running <= max_running\<close> disagree.  There are none.
\<close>

theorem capacity_predicates_never_disagree:
  "\<not> (\<exists>total_running limit. 0 \<le> total_running \<and> 0 \<le> limit
        \<and> capacity_ok total_running limit \<noteq> (total_running \<le> limit))"
  by (auto simp: capacity_ok_def)

text \<open>
  C8, amended.  For a non-negative \<^verbatim>\<open>total_running\<close>: when \<^verbatim>\<open>max_running\<close> is
  non-negative too, the value returned equals \<^verbatim>\<open>total_running <= max_running\<close>, zero
  included; the two differ exactly when \<^verbatim>\<open>total_running\<close> is zero and \<^verbatim>\<open>max_running\<close>
  is negative.
\<close>

theorem capacity_check_redundant_disjunct:
  assumes "0 \<le> total_running"
  shows "(0 \<le> limit \<longrightarrow> capacity_ok total_running limit = (total_running \<le> limit))
       \<and> ((capacity_ok total_running limit \<noteq> (total_running \<le> limit))
            = (total_running = 0 \<and> limit < 0))"
  using assms by (auto simp: capacity_ok_def)

theorem capacity_check_redundant_disjunct_witness:
  "capacity_ok 0 0 = ((0::int) \<le> 0) \<and> capacity_ok 3 2 = ((3::int) \<le> 2)
   \<and> capacity_ok 0 (- 1) \<and> \<not> (0::int) \<le> - 1"
proof -
  have h0: "(0::int) \<le> 0" and h3: "(0::int) \<le> 3" by simp_all
  from capacity_check_redundant_disjunct [OF h0, of 0]
       capacity_check_redundant_disjunct [OF h3, of 2]
       capacity_check_redundant_disjunct [OF h0, of "- 1"]
  show ?thesis by simp
qed

section \<open>The binding of an execution\<close>

lemma circuit_call_refused:
  "cb_before E key w = (False, w1) \<Longrightarrow> circuit_call E key f x w = (Inl CircuitBreakerError, x, w1)"
  by (simp add: circuit_call_def)

lemma circuit_call_failed:
  "cb_before E key w = (True, w1) \<Longrightarrow> f x w1 = (Inl e, x', w2) \<Longrightarrow>
     circuit_call E key f x w =
       (Inl (if fst (cb_failure E key e w2) then CircuitBreakerError else e), x',
        snd (cb_failure E key e w2))"
  by (simp add: circuit_call_def split: prod.splits)

lemma circuit_call_succeeded:
  "cb_before E key w = (True, w1) \<Longrightarrow> f x w1 = (Inr v, x', w2) \<Longrightarrow>
     circuit_call E key f x w = (Inr v, x', cb_success E key w2)"
  by (simp add: circuit_call_def)

lemma circuit_call_keeps:
  assumes "\<And>w0. fst (snd (f x w0)) = x"
  shows "fst (snd (circuit_call E key f x w)) = x"
proof -
  obtain a w1 where b: "cb_before E key w = (a, w1)" by (cases "cb_before E key w")
  obtain r x' w2 where fx: "f x w1 = (r, x', w2)" by (cases "f x w1")
  with assms [of w1] have x': "x' = x" by simp
  show ?thesis
    using b fx x' by (cases a; cases r) (simp_all add: circuit_call_def split: prod.splits)
qed

lemma bound_client_no_host:
  "md ''docker_host'' = None \<Longrightarrow>
     bound_client E pool task_id md rnd w = (Inl (KeyError ''docker_host''), w)"
  by (simp add: bound_client_def md_get_def)

lemma bound_client_no_port:
  "md ''docker_host'' = Some h \<Longrightarrow> md ''docker_port'' = None \<Longrightarrow>
     bound_client E pool task_id md rnd w = (Inl (KeyError ''docker_port''), w)"
  by (simp add: bound_client_def md_get_def)

lemma bound_client_explicit:
  "md ''docker_host'' = Some h \<Longrightarrow> md ''docker_port'' = Some p \<Longrightarrow> h \<noteq> MNone \<Longrightarrow> p \<noteq> MNone \<Longrightarrow>
     map_of (clients pool) (fmt h @ '':'' @ fmt p) = Some c \<Longrightarrow>
     bound_client E pool task_id md rnd w = (Inr c, w)"
  by (simp add: bound_client_def md_get_def get_client_def unpack_def)

lemma bound_client_key_error:
  assumes "md ''docker_host'' = None \<or> md ''docker_port'' = None"
  shows "bound_client E pool task_id md rnd w =
     (Inl (KeyError (if md ''docker_host'' = None then ''docker_host'' else ''docker_port'')), w)"
proof (cases "md ''docker_host''")
  case None
  then show ?thesis by (simp add: bound_client_no_host)
next
  case (Some h)
  with assms have "md ''docker_port'' = None" by simp
  with Some show ?thesis by (simp add: bound_client_no_port)
qed

text \<open>
  C9.  \<^verbatim>\<open>stop_job\<close> returns at once when the binding has no \<^verbatim>\<open>container_id\<close>; past
  that guard it reads \<^verbatim>\<open>docker_host\<close> and \<^verbatim>\<open>docker_port\<close> without a test, as
  \<^verbatim>\<open>get_result\<close>, \<^verbatim>\<open>get_current_logs\<close>, \<^verbatim>\<open>get_streaming_logs\<close> and \<^verbatim>\<open>mark_as_done\<close> do
  from their first line.  When either key is absent each of them raises \<^verbatim>\<open>KeyError\<close>
  for the first absent key, contacts no host and leaves the binding as it was.  The
  generator \<^verbatim>\<open>get_streaming_logs\<close> raises it when it is first advanced.
\<close>

theorem unbound_host_raises_key_error:
  assumes "md ''docker_host'' = None \<or> md ''docker_port'' = None"
  shows "(md ''container_id'' = None \<longrightarrow> stop_job E pool task_id md rnd w = (Inr (), md, w))
       \<and> (md ''container_id'' \<noteq> None \<longrightarrow>
            stop_job E pool task_id md rnd w =
              (Inl (KeyError (if md ''docker_host'' = None then ''docker_host'' else ''docker_port'')),
               md, w))
       \<and> get_result E pool task_id md rnd w =
            (Inl (KeyError (if md ''docker_host'' = None then ''docker_host'' else ''docker_port'')),
             md, w)
       \<and> get_current_logs E pool task_id md rnd w =
            (Inl (KeyError (if md ''docker_host'' = None then ''docker_host'' else ''docker_port'')),
             md, w)
       \<and> get_streaming_logs E pool task_id md rnd w =
            (([], Some (KeyError (if md ''docker_host'' = None then ''docker_host''
                                  else ''docker_port''))), md, w)
       \<and> mark_as_done E pool task_id md rnd w =
            (Inl (KeyError (if md ''docker_host'' = None then ''docker_host'' else ''docker_port'')),
             md, w)"
  using bound_client_key_error [OF assms, of E pool task_id rnd w]
  by (simp add: stop_job_def get_result_def get_current_logs_def get_streaming_logs_def
      mark_as_done_def)

text \<open>
  The state is reachable: \<^verbatim>\<open>run\<close>, called again for a bound execution whose host does
  not answer, raises \<^verbatim>\<open>HostUnavailableError\<close> and leaves a binding with the
  \<^verbatim>\<open>container_id\<close> and without \<^verbatim>\<open>docker_host\<close>; on that binding the five operations
  raise \<^verbatim>\<open>KeyError\<close>.
\<close>

theorem unbound_host_raises_key_error_witness:
  "fst sim_rerun = Inl (HostUnavailableError ''hcpu'' 2375 ''connection refused'')
   \<and> sim_cleared ''container_id'' = Some (MStr ''id-fastlane-job-e1'')
   \<and> sim_cleared ''docker_host'' = None
   \<and> stop_job sim_env sim_pool ''web-1'' sim_cleared 0 sim_down
        = (Inl (KeyError ''docker_host''), sim_cleared, sim_down)
   \<and> get_result sim_env sim_pool ''web-1'' sim_cleared 0 sim_down
        = (Inl (KeyError ''docker_host''), sim_cleared, sim_down)
   \<and> get_current_logs sim_env sim_pool ''web-1'' sim_cleared 0 sim_down
        = (Inl (KeyError ''docker_host''), sim_cleared, sim_down)
   \<and> get_streaming_logs sim_env sim_pool ''web-1'' sim_cleared 0 sim_down
        = (([], Some (KeyError ''docker_host'')), sim_cleared, sim_down)
   \<and> mark_as_done sim_env sim_pool ''web-1'' sim_cleared 0 sim_down
        = (Inl (KeyError ''docker_host''), sim_cleared, sim_down)"
proof -
  have failed: "fst sim_rerun = Inl (HostUnavailableError ''hcpu'' 2375 ''connection refused'')"
    by code_simp
  have kept: "sim_cleared ''container_id'' = Some (MStr ''id-fastlane-job-e1'')"
    by code_simp
  have cleared: "sim_cleared ''docker_host'' = None"
    by code_simp
  from cleared have "sim_cleared ''docker_host'' = None \<or> sim_cleared ''docker_port'' = None" ..
  from unbound_host_raises_key_error [OF this, of sim_env sim_pool "''web-1''" 0 sim_down]
    failed kept cleared
  show ?thesis by simp
qed

section \<open>Connection failures and the binding\<close>

lemma update_image_run_refused_connection:
  "images_pull E cl img tag w = (Inl (ConnErr m), w') \<Longrightarrow>
     update_image_run E host port cl img tag md w =
       (Inl (HostUnavailableError host port m),
        md(''docker_host'' := None, ''docker_port'' := None), w')"
  by (simp add: update_image_run_def)

lemma run_run_refused_connection:
  "containers_run E cl (img @ '':'' @ tag) (job_prefix @ ''-'' @ execution_id) command envs w
      = (Inl (ConnErr m), w') \<Longrightarrow>
     run_run E host port cl execution_id img tag command envs md w =
       (Inl (HostUnavailableError host port m),
        md(''docker_host'' := None, ''docker_port'' := None), w')"
  by (simp add: run_run_def)

lemma update_image_selected:
  "blacklist_or_shared E blacklisted_hosts w = Inr bl \<Longrightarrow>
   get_client E pool task_id MNone MNone (Some bl) rnd w = (Inr (Some (host, port, cl)), w1) \<Longrightarrow>
     update_image E pool task_id md img tag blacklisted_hosts rnd w =
       circuit_call E (address host port) (update_image_run E host port cl img tag) md w1"
  by (simp add: update_image_def unpack_def)

lemma run_resolved:
  "run_host E pool task_id md blacklisted_hosts rnd w = (Inr (host, port, cl), md1, w1) \<Longrightarrow>
     run E pool task_id execution_id md img tag command envs blacklisted_hosts rnd w =
       (case circuit_call E (address host port)
               (run_run E host port cl execution_id img tag command envs) md1 w1 of
         (Inl e, md2, w2) \<Rightarrow> (Inl e, md2, w2)
       | (Inr u, md2, w2) \<Rightarrow> (Inr True, md2, w2))"
  by (simp add: run_def)

lemma stop_job_run_keeps: "fst (snd (stop_job_run E host port cl md w)) = md"
  by (simp add: stop_job_run_def split: sum.splits prod.splits)

lemma get_result_run_keeps: "fst (snd (get_result_run E host port cl md w)) = md"
  by (simp add: get_result_run_def split: sum.splits prod.splits)

lemma stop_job_keeps: "fst (snd (stop_job E pool task_id md rnd w)) = md"
  by (simp add: stop_job_def circuit_call_keeps stop_job_run_keeps split: sum.splits prod.splits)

lemma get_result_keeps: "fst (snd (get_result E pool task_id md rnd w)) = md"
proof -
  have "\<And>host port cl w1 r md2 w2.
      circuit_call E (address host port) (get_result_run E host port cl) md w1 = (r, md2, w2) \<Longrightarrow>
      md2 = md"
    using circuit_call_keeps [of "get_result_run E _ _ _" md E, OF get_result_run_keeps]
    by (metis fst_conv snd_conv)
  then show ?thesis
    by (auto simp add: get_result_def split: sum.splits prod.splits)
qed

lemma get_current_logs_keeps: "fst (snd (get_current_logs E pool task_id md rnd w)) = md"
  by (simp add: get_current_logs_def split: sum.splits prod.splits option.splits)

lemma get_streaming_logs_keeps: "fst (snd (get_streaming_logs E pool task_id md rnd w)) = md"
  by (simp add: get_streaming_logs_def split: sum.splits prod.splits)

lemma mark_as_done_keeps: "fst (snd (mark_as_done E pool task_id md rnd w)) = md"
  by (simp add: mark_as_done_def split: sum.splits prod.splits)

text \<open>
  The claim C3 says that after a connection failure in any operation the binding
  has neither \<^verbatim>\<open>docker_host\<close> nor \<^verbatim>\<open>docker_port\<close>.  \<^verbatim>\<open>stop_job\<close> on a bound execution
  whose host does not answer raises \<^verbatim>\<open>HostUnavailableError\<close> and leaves both keys.
\<close>

theorem stop_job_keeps_binding_on_connection_failure:
  "fst (stop_job sim_env sim_pool ''web-1'' sim_bound 0 sim_down)
     = Inl (HostUnavailableError ''hcpu'' 2375 ''connection refused'')
   \<and> fst (snd (stop_job sim_env sim_pool ''web-1'' sim_bound 0 sim_down)) ''docker_host''
     = Some (MStr ''hcpu'')
   \<and> fst (snd (stop_job sim_env sim_pool ''web-1'' sim_bound 0 sim_down)) ''docker_port''
     = Some (MInt 2375)"
  by code_simp

text \<open>
  C3, amended.  In \<^verbatim>\<open>update_image\<close> and in \<^verbatim>\<open>run\<close>, when the breaker admits the call
  and the engine call (the pull, the start of the container) raises a
  connection-class failure, the operation raises and the binding it leaves has
  neither \<^verbatim>\<open>docker_host\<close> nor \<^verbatim>\<open>docker_port\<close>, its other keys unchanged.
  \<^verbatim>\<open>stop_job\<close>, \<^verbatim>\<open>get_result\<close>, \<^verbatim>\<open>get_current_logs\<close>, \<^verbatim>\<open>get_streaming_logs\<close> and
  \<^verbatim>\<open>mark_as_done\<close> never change the binding, whatever happens.
\<close>

theorem connection_failure_clears_binding_in_update_image_and_run:
  "(blacklist_or_shared E blacklisted_hosts w = Inr bl
      \<and> get_client E pool task_id MNone MNone (Some bl) rnd w = (Inr (Some (host, port, cl)), w1)
      \<and> cb_before E (address host port) w1 = (True, w2)
      \<and> images_pull E cl img tag w2 = (Inl (ConnErr m), w3)
     \<longrightarrow> (\<exists>e w'. update_image E pool task_id md img tag blacklisted_hosts rnd w
                   = (Inl e, md(''docker_host'' := None, ''docker_port'' := None), w')))
   \<and> (run_host E pool task_id md blacklisted_hosts rnd w = (Inr (host, port, cl), md1, w1)
      \<and> cb_before E (address host port) w1 = (True, w2)
      \<and> containers_run E cl (img @ '':'' @ tag) (job_prefix @ ''-'' @ execution_id) command envs w2
           = (Inl (ConnErr m), w3)
     \<longrightarrow> (\<exists>e w'. run E pool task_id execution_id md img tag command envs blacklisted_hosts rnd w
                   = (Inl e, md1(''docker_host'' := None, ''docker_port'' := None), w')))
   \<and> fst (snd (stop_job E pool task_id md rnd w)) = md
   \<and> fst (snd (get_result E pool task_id md rnd w)) = md
   \<and> fst (snd (get_current_logs E pool task_id md rnd w)) = md
   \<and> fst (snd (get_streaming_logs E pool task_id md rnd w)) = md
   \<and> fst (snd (mark_as_done E pool task_id md rnd w)) = md"
proof -
  have upd: "\<exists>e w'. update_image E pool task_id md img tag blacklisted_hosts rnd w
                   = (Inl e, md(''docker_host'' := None, ''docker_port'' := None), w')"
    if "blacklist_or_shared E blacklisted_hosts w = Inr bl"
      and "get_client E pool task_id MNone MNone (Some bl) rnd w = (Inr (Some (host, port, cl)), w1)"
      and "cb_before E (address host port) w1 = (True, w2)"
      and "images_pull E cl img tag w2 = (Inl (ConnErr m), w3)"
    using update_image_selected [OF that(1,2), of md img tag]
      circuit_call_failed [where f = "update_image_run E host port cl img tag" and x = md,
        OF that(3) update_image_run_refused_connection [OF that(4)]]
    by metis
  have rn: "\<exists>e w'. run E pool task_id execution_id md img tag command envs blacklisted_hosts rnd w
                   = (Inl e, md1(''docker_host'' := None, ''docker_port'' := None), w')"
    if "run_host E pool task_id md blacklisted_hosts rnd w = (Inr (host, port, cl), md1, w1)"
      and "cb_before E (address host port) w1 = (True, w2)"
      and "containers_run E cl (img @ '':'' @ tag) (job_prefix @ ''-'' @ execution_id) command envs w2
           = (Inl (ConnErr m), w3)"
  proof -
    note failed = circuit_call_failed
      [where f = "run_run E host port cl execution_id img tag command envs" and x = md1,
        OF that(2) run_run_refused_connection [OF that(3)]]
    have "run E pool task_id execution_id md img tag command envs blacklisted_hosts rnd w
        = (Inl (if fst (cb_failure E (address host port) (HostUnavailableError host port m) w3)
                then CircuitBreakerError else HostUnavailableError host port m),
           md1(''docker_host'' := None, ''docker_port'' := None),
           snd (cb_failure E (address host port) (HostUnavailableError host port m) w3))"
      by (simp only: run_resolved [OF that(1)] failed prod.case sum.case)
    then show ?thesis by blast
  qed
  show ?thesis
    apply (intro conjI impI)
    subgoal by (elim conjE) (rule upd; assumption)
    subgoal by (elim conjE) (rule rn; assumption)
    subgoal by (rule stop_job_keeps)
    subgoal by (rule get_result_keeps)
    subgoal by (rule get_current_logs_keeps)
    subgoal by (rule get_streaming_logs_keeps)
    subgoal by (rule mark_as_done_keeps)
    done
qed

text \<open>
  Two runs: a pull that loses the connection on the host just selected, and the
  start of a container on a bound host that does not answer.
\<close>

lemma str_int_2375: "str_int 2375 = ''2375''"
  by code_simp

lemma sim_bound_client:
  "bound_client sim_env sim_pool task_id sim_bound rnd w = (Inr (''hcpu'', 2375, ''hcpu:2375''), w)"
  by (rule bound_client_explicit [where h = "MStr ''hcpu''" and p = "MInt 2375"])
     (simp_all add: sim_bound_def sim_pool_def str_int_2375)

theorem connection_failure_clears_binding_in_update_image_and_run_witness:
  "fst (snd (update_image sim_env_pull_cut sim_pool ''web-1'' sim_bound ''img'' ''v1'' (Some {}) 0
        sim_started)) ''docker_host'' = None
   \<and> fst (snd (update_image sim_env_pull_cut sim_pool ''web-1'' sim_bound ''img'' ''v1'' (Some {}) 0
        sim_started)) ''docker_port'' = None
   \<and> sim_cleared ''docker_host'' = None
   \<and> sim_cleared ''docker_port'' = None"
proof -
  have bl: "blacklist_or_shared sim_env_pull_cut (Some {}) sim_started = Inr {}"
    by (simp add: blacklist_or_shared_def)
  have sel: "get_client sim_env_pull_cut sim_pool ''web-1'' MNone MNone (Some {}) 0 sim_started
      = (Inr (Some (''hcpu'', 2375, ''hcpu:2375'')), sim_started)"
    by code_simp
  have adm: "cb_before sim_env_pull_cut (address ''hcpu'' 2375) sim_started = (True, sim_started)"
    by code_simp
  have pull: "images_pull sim_env_pull_cut ''hcpu:2375'' ''img'' ''v1'' sim_started
      = (Inl (ConnErr ''connection refused''), sim_started)"
    by code_simp
  from connection_failure_clears_binding_in_update_image_and_run
    [where E = sim_env_pull_cut and blacklisted_hosts = "Some {}" and w = sim_started
      and bl = "{}" and pool = sim_pool and task_id = "''web-1''" and rnd = 0
      and host = "''hcpu''" and port = 2375 and cl = "''hcpu:2375''" and ?w1.0 = sim_started
      and ?w2.0 = sim_started and img = "''img''" and tag = "''v1''"
      and m = "''connection refused''" and ?w3.0 = sim_started and md = sim_bound]
    bl sel adm pull
  obtain e w' where "update_image sim_env_pull_cut sim_pool ''web-1'' sim_bound ''img'' ''v1''
      (Some {}) 0 sim_started
      = (Inl e, sim_bound(''docker_host'' := None, ''docker_port'' := None), w')"
    by blast
  then have upd: "fst (snd (update_image sim_env_pull_cut sim_pool ''web-1'' sim_bound ''img'' ''v1''
      (Some {}) 0 sim_started)) = sim_bound(''docker_host'' := None, ''docker_port'' := None)"
    by simp
  have rh: "run_host sim_env sim_pool ''web-1'' sim_bound None 0 sim_down
      = (Inr (''hcpu'', 2375, ''hcpu:2375''), sim_bound, sim_down)"
    by (simp add: run_host_def sim_bound_client) (simp add: sim_bound_def)
  have adm2: "cb_before sim_env (address ''hcpu'' 2375) sim_down = (True, sim_down)"
    by code_simp
  have start: "containers_run sim_env ''hcpu:2375'' (''img'' @ '':'' @ ''v1'')
      (job_prefix @ ''-'' @ ''e1'') ''echo'' [] sim_down
      = (Inl (ConnErr ''connection refused''), sim_down)"
    by code_simp
  from connection_failure_clears_binding_in_update_image_and_run
    [where E = sim_env and blacklisted_hosts = None and w = sim_down
      and pool = sim_pool and task_id = "''web-1''" and rnd = 0
      and host = "''hcpu''" and port = 2375 and cl = "''hcpu:2375''" and ?w1.0 = sim_down
      and ?w2.0 = sim_down and img = "''img''" and tag = "''v1''" and execution_id = "''e1''"
      and command = "''echo''" and envs = "[]"
      and m = "''connection refused''" and ?w3.0 = sim_down and md = sim_bound and ?md1.0 = sim_bound]
    rh adm2 start
  obtain e2 w2 where "run sim_env sim_pool ''web-1'' ''e1'' sim_bound ''img'' ''v1'' ''echo'' [] None 0
      sim_down = (Inl e2, sim_bound(''docker_host'' := None, ''docker_port'' := None), w2)"
    by blast
  then have rr: "sim_cleared = sim_bound(''docker_host'' := None, ''docker_port'' := None)"
    by (simp add: sim_cleared_def sim_rerun_def)
  show ?thesis by (simp add: upd rr)
qed

section \<open>Marking a container as done\<close>

lemma defunct_twice: "''defunct-'' @ ''defunct-'' @ n \<noteq> ''defunct-'' @ n"
proof
  assume "''defunct-'' @ ''defunct-'' @ n = ''defunct-'' @ n"
  then have "length (''defunct-'' @ ''defunct-'' @ n) = length (''defunct-'' @ n)" by (rule arg_cong)
  then show False by simp
qed

text \<open>
  C10.  \<^verbatim>\<open>mark_as_done\<close> asks the engine to rename the bound container to
  \<^verbatim>\<open>defunct-\<close> followed by the name the engine reports for it.  For a container that
  \<^verbatim>\<open>run\<close> named \<^verbatim>\<open>f"{job_prefix}-{execution_id}"\<close>, a first call renames it to
  \<^verbatim>\<open>defunct-{job_prefix}-{execution_id}\<close>; once the engine reports that name, a second
  call on the same binding asks for \<^verbatim>\<open>defunct-defunct-{job_prefix}-{execution_id}\<close>,
  a different name: the operation is not idempotent.
\<close>

theorem mark_as_done_twice_prepends_defunct_twice:
  assumes "md ''docker_host'' = Some h" and "h \<noteq> MNone"
    and "md ''docker_port'' = Some p" and "p \<noteq> MNone"
    and "map_of (clients pool) (fmt h @ '':'' @ fmt p) = Some (host, port, cl)"
    and "md ''container_id'' = Some v"
    and "containers_get E cl v w = (Inr c, w1)"
    and "cname c = job_prefix @ ''-'' @ execution_id"
    and "container_rename E cl c (''defunct-'' @ job_prefix @ ''-'' @ execution_id) w1 = (Inr (), w2)"
    and "containers_get E cl v w2 = (Inr c', w3)"
    and "cname c' = ''defunct-'' @ job_prefix @ ''-'' @ execution_id"
  shows "mark_as_done E pool task_id md rnd w = (Inr (), md, w2)
       \<and> mark_as_done E pool task_id md rnd' w2 =
           (case container_rename E cl c'
                   (''defunct-defunct-'' @ job_prefix @ ''-'' @ execution_id) w3 of
             (Inl e, w4) \<Rightarrow> (Inl (host_unavailable host port e), md, w4)
           | (Inr u, w4) \<Rightarrow> (Inr (), md, w4))
       \<and> defunct_name c' \<noteq> defunct_name c"
proof -
  have b: "bound_client E pool task_id md r w0 = (Inr (host, port, cl), w0)" for r w0
    by (rule bound_client_explicit [OF assms(1) assms(3) assms(2) assms(4) assms(5)])
  have first: "mark_as_done E pool task_id md rnd w = (Inr (), md, w2)"
    using assms(6-9) by (simp add: mark_as_done_def b md_get_def defunct_name_def)
  have second: "mark_as_done E pool task_id md rnd' w2 =
           (case container_rename E cl c'
                   (''defunct-defunct-'' @ job_prefix @ ''-'' @ execution_id) w3 of
             (Inl e, w4) \<Rightarrow> (Inl (host_unavailable host port e), md, w4)
           | (Inr u, w4) \<Rightarrow> (Inr (), md, w4))"
    using assms(6,10,11) by (simp add: mark_as_done_def b md_get_def defunct_name_def)
  have "defunct_name c' \<noteq> defunct_name c"
    using assms(8,11) defunct_twice [of "job_prefix @ ''-'' @ execution_id"]
    by (simp add: defunct_name_def)
  with first second show ?thesis by simp
qed

text \<open>
  On the small engine, whose rename stores the new name, the container is named
  \<^verbatim>\<open>defunct-defunct-fastlane-job-e1\<close> after the second call.
\<close>

theorem mark_as_done_twice_prepends_defunct_twice_witness:
  "mark_as_done sim_env sim_pool ''web-1'' sim_bound 0 sim_started = (Inr (), sim_bound, sim_marked)
   \<and> mark_as_done sim_env sim_pool ''web-1'' sim_bound 0 sim_marked
        = (Inr (), sim_bound, sim_marked_twice)
   \<and> map_option cname (sim_find sim_marked_twice (MStr ''id-fastlane-job-e1''))
        = Some ''defunct-defunct-fastlane-job-e1''"
proof -
  let ?c = "sim_new_container ''fastlane-job-e1''"
  let ?c' = "?c\<lparr>cname := ''defunct-fastlane-job-e1''\<rparr>"
  have host: "sim_bound ''docker_host'' = Some (MStr ''hcpu'')"
    and port: "sim_bound ''docker_port'' = Some (MInt 2375)"
    and ident: "sim_bound ''container_id'' = Some (MStr ''id-fastlane-job-e1'')"
    by (simp_all add: sim_bound_def)
  have client: "map_of (clients sim_pool) (fmt (MStr ''hcpu'') @ '':'' @ fmt (MInt 2375))
      = Some (''hcpu'', 2375, ''hcpu:2375'')"
    by code_simp
  have get1: "containers_get sim_env ''hcpu:2375'' (MStr ''id-fastlane-job-e1'') sim_started
      = (Inr ?c, sim_started)"
    by code_simp
  have name1: "cname ?c = job_prefix @ ''-'' @ ''e1''"
    by code_simp
  have rename1: "container_rename sim_env ''hcpu:2375'' ?c
      (''defunct-'' @ job_prefix @ ''-'' @ ''e1'') sim_started = (Inr (), sim_marked)"
    by code_simp
  have get2: "containers_get sim_env ''hcpu:2375'' (MStr ''id-fastlane-job-e1'') sim_marked
      = (Inr ?c', sim_marked)"
    by code_simp
  have name2: "cname ?c' = ''defunct-'' @ job_prefix @ ''-'' @ ''e1''"
    by code_simp
  have rename2: "container_rename sim_env ''hcpu:2375'' ?c'
      (''defunct-defunct-'' @ job_prefix @ ''-'' @ ''e1'') sim_marked = (Inr (), sim_marked_twice)"
    by code_simp
  have name3: "map_option cname (sim_find sim_marked_twice (MStr ''id-fastlane-job-e1''))
        = Some ''defunct-defunct-fastlane-job-e1''"
    by code_simp
  note twice = mark_as_done_twice_prepends_defunct_twice
    [OF host _ port _ client ident get1 name1 rename1 get2 name2,
      where task_id = "''web-1''" and rnd = 0 and rnd' = 0, unfolded rename2 prod.case sum.case]
  from twice name3 show ?thesis by simp
qed

section \<open>The result of an execution\<close>





section \<open>Breakers and the translation of connection failures\<close>

lemma update_image_refused:
  assumes "blacklist_or_shared E blacklisted_hosts w = Inr bl"
    and "get_client E pool task_id MNone MNone (Some bl) rnd w = (Inr (Some (host, port, cl)), w1)"
    and "cb_before E (address host port) w1 = (False, w2)"
  shows "update_image E pool task_id md img tag blacklisted_hosts rnd w
      = (Inl CircuitBreakerError, md, w2)"
  by (simp only: update_image_selected [OF assms(1,2)] circuit_call_refused [OF assms(3)])

lemma update_image_unavailable:
  assumes "blacklist_or_shared E blacklisted_hosts w = Inr bl"
    and "get_client E pool task_id MNone MNone (Some bl) rnd w = (Inr (Some (host, port, cl)), w1)"
    and "cb_before E (address host port) w1 = (True, w2)"
    and "images_pull E cl img tag w2 = (Inl (ConnErr m), w3)"
  shows "fst (update_image E pool task_id md img tag blacklisted_hosts rnd w)
      = Inl (if fst (cb_failure E (address host port) (HostUnavailableError host port m) w3)
             then CircuitBreakerError else HostUnavailableError host port m)"
  by (simp only: update_image_selected [OF assms(1,2)] fst_conv
      circuit_call_failed [where f = "update_image_run E host port cl img tag" and x = md,
        OF assms(3) update_image_run_refused_connection [OF assms(4)]])

lemma run_refused:
  assumes "run_host E pool task_id md blacklisted_hosts rnd w = (Inr (host, port, cl), md1, w1)"
    and "cb_before E (address host port) w1 = (False, w2)"
  shows "run E pool task_id execution_id md img tag command envs blacklisted_hosts rnd w
      = (Inl CircuitBreakerError, md1, w2)"
  by (simp only: run_resolved [OF assms(1)] circuit_call_refused [OF assms(2)] prod.case sum.case)

lemma run_unavailable:
  assumes "run_host E pool task_id md blacklisted_hosts rnd w = (Inr (host, port, cl), md1, w1)"
    and "cb_before E (address host port) w1 = (True, w2)"
    and "containers_run E cl (img @ '':'' @ tag) (job_prefix @ ''-'' @ execution_id) command envs w2
           = (Inl (ConnErr m), w3)"
  shows "fst (run E pool task_id execution_id md img tag command envs blacklisted_hosts rnd w)
      = Inl (if fst (cb_failure E (address host port) (HostUnavailableError host port m) w3)
             then CircuitBreakerError else HostUnavailableError host port m)"
  by (simp only: run_resolved [OF assms(1)] prod.case sum.case fst_conv
      circuit_call_failed [where f = "run_run E host port cl execution_id img tag command envs"
        and x = md1, OF assms(2) run_run_refused_connection [OF assms(3)]])

lemma stop_job_bound:
  "md ''container_id'' = Some v \<Longrightarrow>
   bound_client E pool task_id md rnd w = (Inr (host, port, cl), w1) \<Longrightarrow>
     stop_job E pool task_id md rnd w =
       circuit_call E (address host port) (stop_job_run E host port cl) md w1"
  by (simp add: stop_job_def)

lemma stop_job_run_get_unavailable:
  "md ''container_id'' = Some v \<Longrightarrow> containers_get E cl v w = (Inl (ConnErr m), w') \<Longrightarrow>
     stop_job_run E host port cl md w = (Inl (HostUnavailableError host port m), md, w')"
  by (simp add: stop_job_run_def md_get_def)

lemma stop_job_run_stop_unavailable:
  "md ''container_id'' = Some v \<Longrightarrow> containers_get E cl v w = (Inr c, w') \<Longrightarrow>
   container_stop E cl c w' = (Inl (ConnErr m), w'') \<Longrightarrow>
     stop_job_run E host port cl md w = (Inl (HostUnavailableError host port m), md, w'')"
  by (simp add: stop_job_run_def md_get_def)

lemma get_result_bound_refused:
  "bound_client E pool task_id md rnd w = (Inr (host, port, cl), w1) \<Longrightarrow>
   cb_before E (address host port) w1 = (False, w2) \<Longrightarrow>
     get_result E pool task_id md rnd w = (Inl CircuitBreakerError, md, w2)"
  by (simp add: get_result_def circuit_call_refused)

lemma get_result_run_unavailable:
  "md ''container_id'' = Some v \<Longrightarrow> containers_get E cl v w = (Inl (ConnErr m), w') \<Longrightarrow>
     get_result_run E host port cl md w = (Inl (HostUnavailableError host port m), md, w')"
  by (simp add: get_result_run_def md_get_def)

lemma get_result_unavailable:
  assumes "md ''container_id'' = Some v"
    and "bound_client E pool task_id md rnd w = (Inr (host, port, cl), w1)"
    and "cb_before E (address host port) w1 = (True, w2)"
    and "containers_get E cl v w2 = (Inl (ConnErr m), w3)"
  shows "fst (get_result E pool task_id md rnd w)
      = Inl (if fst (cb_failure E (address host port) (HostUnavailableError host port m) w3)
             then CircuitBreakerError else HostUnavailableError host port m)"
  using assms(2)
    circuit_call_failed [where f = "get_result_run E host port cl" and x = md,
        OF assms(3) get_result_run_unavailable [where md = md, OF assms(1,4)]]
  by (simp add: get_result_def)

lemma stream_decode_unavailable:
  "those (map (decode_utf8 E) chunks) = Some ys \<Longrightarrow>
     stream_decode E host port chunks (Some (ConnErr m))
       = (ys, Some (HostUnavailableError host port m))"
proof (induction chunks arbitrary: ys)
  case Nil
  then show ?case by simp
next
  case (Cons b bs)
  then show ?case by (auto split: option.splits)
qed

lemma stop_job_refused:
  assumes "md ''container_id'' = Some v"
    and "bound_client E pool task_id md rnd w = (Inr (host, port, cl), w1)"
    and "cb_before E (address host port) w1 = (False, w2)"
  shows "stop_job E pool task_id md rnd w = (Inl CircuitBreakerError, md, w2)"
  by (simp only: stop_job_bound [where md = md, OF assms(1,2)] circuit_call_refused [OF assms(3)])

lemma stop_job_get_unavailable:
  assumes "md ''container_id'' = Some v"
    and "bound_client E pool task_id md rnd w = (Inr (host, port, cl), w1)"
    and "cb_before E (address host port) w1 = (True, w2)"
    and "containers_get E cl v w2 = (Inl (ConnErr m), w3)"
  shows "fst (stop_job E pool task_id md rnd w)
      = Inl (if fst (cb_failure E (address host port) (HostUnavailableError host port m) w3)
             then CircuitBreakerError else HostUnavailableError host port m)"
  by (simp only: stop_job_bound [where md = md, OF assms(1,2)] fst_conv
      circuit_call_failed [where f = "stop_job_run E host port cl" and x = md,
        OF assms(3) stop_job_run_get_unavailable [where md = md, OF assms(1,4)]])

lemma stop_job_stop_unavailable:
  assumes "md ''container_id'' = Some v"
    and "bound_client E pool task_id md rnd w = (Inr (host, port, cl), w1)"
    and "cb_before E (address host port) w1 = (True, w2)"
    and "containers_get E cl v w2 = (Inr c, w3)"
    and "container_stop E cl c w3 = (Inl (ConnErr m), w4)"
  shows "fst (stop_job E pool task_id md rnd w)
      = Inl (if fst (cb_failure E (address host port) (HostUnavailableError host port m) w4)
             then CircuitBreakerError else HostUnavailableError host port m)"
  by (simp only: stop_job_bound [where md = md, OF assms(1,2)] fst_conv
      circuit_call_failed [where f = "stop_job_run E host port cl" and x = md,
        OF assms(3) stop_job_run_stop_unavailable [where md = md, OF assms(1,4,5)]])

lemma get_streaming_logs_get_unavailable:
  "md ''container_id'' = Some v \<Longrightarrow>
   bound_client E pool task_id md rnd w = (Inr (host, port, cl), w1) \<Longrightarrow>
   containers_get E cl v w1 = (Inl (ConnErr m), w2) \<Longrightarrow>
     get_streaming_logs E pool task_id md rnd w
       = (([], Some (HostUnavailableError host port m)), md, w2)"
  by (simp add: get_streaming_logs_def md_get_def)

lemma get_streaming_logs_stream_unavailable:
  "md ''container_id'' = Some v \<Longrightarrow>
   bound_client E pool task_id md rnd w = (Inr (host, port, cl), w1) \<Longrightarrow>
   containers_get E cl v w1 = (Inr c, w2) \<Longrightarrow>
   container_logs_stream E cl c w2 = ((chunks, Some (ConnErr m)), w3) \<Longrightarrow>
   those (map (decode_utf8 E) chunks) = Some ys \<Longrightarrow>
     get_streaming_logs E pool task_id md rnd w
       = ((ys, Some (HostUnavailableError host port m)), md, w3)"
  by (simp add: get_streaming_logs_def md_get_def stream_decode_unavailable)

lemma mark_as_done_get_unavailable:
  "md ''container_id'' = Some v \<Longrightarrow>
   bound_client E pool task_id md rnd w = (Inr (host, port, cl), w1) \<Longrightarrow>
   containers_get E cl v w1 = (Inl (ConnErr m), w2) \<Longrightarrow>
     mark_as_done E pool task_id md rnd w = (Inl (HostUnavailableError host port m), md, w2)"
  by (simp add: mark_as_done_def md_get_def)

lemma mark_as_done_rename_unavailable:
  "md ''container_id'' = Some v \<Longrightarrow>
   bound_client E pool task_id md rnd w = (Inr (host, port, cl), w1) \<Longrightarrow>
   containers_get E cl v w1 = (Inr c, w2) \<Longrightarrow>
   container_rename E cl c (defunct_name c) w2 = (Inl (ConnErr m), w3) \<Longrightarrow>
     mark_as_done E pool task_id md rnd w = (Inl (HostUnavailableError host port m), md, w3)"
  by (simp add: mark_as_done_def md_get_def)

text \<open>
  The claim C4 says that every operation dispatches through the breaker of its
  host and raises a connection failure as \<^verbatim>\<open>HostUnavailableError\<close>.  On a host that
  does not answer, \<^verbatim>\<open>get_current_logs\<close> and \<^verbatim>\<open>remove_done\<close> raise the connection
  error itself.  With the breaker of the host open, which refuses every call and
  makes \<^verbatim>\<open>stop_job\<close> raise \<^verbatim>\<open>CircuitBreakerError\<close>, \<^verbatim>\<open>mark_as_done\<close> still reaches the
  engine and renames the container.
\<close>

theorem breaker_bypassed_and_connection_error_untranslated:
  "fst (get_current_logs sim_env sim_pool ''web-1'' sim_bound 0 sim_down)
     = Inl (ConnectionError ''connection refused'')
   \<and> fst (remove_done sim_env sim_pool sim_down) = Inl (ConnectionError ''connection refused'')
   \<and> cb_before sim_env (address ''hcpu'' 2375) sim_open = (False, sim_open)
   \<and> fst (stop_job sim_env sim_pool ''web-1'' sim_bound 0 sim_open) = Inl CircuitBreakerError
   \<and> fst (mark_as_done sim_env sim_pool ''web-1'' sim_bound 0 sim_open) = Inr ()
   \<and> map_option cname
        (sim_find (snd (snd (mark_as_done sim_env sim_pool ''web-1'' sim_bound 0 sim_open)))
           (MStr ''id-fastlane-job-e1''))
       = Some ''defunct-fastlane-job-e1''"
  by code_simp

text \<open>
  C4, amended.  \<^verbatim>\<open>update_image\<close>, \<^verbatim>\<open>run\<close>, \<^verbatim>\<open>stop_job\<close> and the container fetch of
  \<^verbatim>\<open>get_result\<close> go through the breaker of their host: when the breaker refuses,
  the engine is not called and the caller gets \<^verbatim>\<open>CircuitBreakerError\<close>; when it
  admits the call and the engine call raises a connection-class failure, the caller
  gets \<^verbatim>\<open>HostUnavailableError(host, port, cause)\<close>, or \<^verbatim>\<open>CircuitBreakerError\<close> when that
  failure trips the breaker, and never the connection error itself.
  \<^verbatim>\<open>get_streaming_logs\<close> and \<^verbatim>\<open>mark_as_done\<close> use no breaker and raise a
  connection-class failure of their engine calls as
  \<^verbatim>\<open>HostUnavailableError(host, port, cause)\<close>.
\<close>

theorem breaker_dispatch_and_host_unavailable:
  "(blacklist_or_shared E blacklisted_hosts w = Inr bl
      \<and> get_client E pool task_id MNone MNone (Some bl) rnd w = (Inr (Some (host, port, cl)), w1)
     \<longrightarrow>
       (cb_before E (address host port) w1 = (False, w2)
         \<longrightarrow> update_image E pool task_id md img tag blacklisted_hosts rnd w
               = (Inl CircuitBreakerError, md, w2))
     \<and> (cb_before E (address host port) w1 = (True, w2)
          \<and> images_pull E cl img tag w2 = (Inl (ConnErr m), w3)
         \<longrightarrow> fst (update_image E pool task_id md img tag blacklisted_hosts rnd w)
               = Inl (if fst (cb_failure E (address host port)
                                (HostUnavailableError host port m) w3)
                      then CircuitBreakerError else HostUnavailableError host port m)))
   \<and> (run_host E pool task_id md blacklisted_hosts rnd w = (Inr (host, port, cl), md1, w1)
     \<longrightarrow>
       (cb_before E (address host port) w1 = (False, w2)
         \<longrightarrow> run E pool task_id execution_id md img tag command envs blacklisted_hosts rnd w
               = (Inl CircuitBreakerError, md1, w2))
     \<and> (cb_before E (address host port) w1 = (True, w2)
          \<and> containers_run E cl (img @ '':'' @ tag) (job_prefix @ ''-'' @ execution_id)
                command envs w2 = (Inl (ConnErr m), w3)
         \<longrightarrow> fst (run E pool task_id execution_id md img tag command envs blacklisted_hosts rnd w)
               = Inl (if fst (cb_failure E (address host port)
                                (HostUnavailableError host port m) w3)
                      then CircuitBreakerError else HostUnavailableError host port m)))
   \<and> (md ''container_id'' = Some v
      \<and> bound_client E pool task_id md rnd w = (Inr (host, port, cl), w1)
     \<longrightarrow>
       (cb_before E (address host port) w1 = (False, w2)
         \<longrightarrow> stop_job E pool task_id md rnd w = (Inl CircuitBreakerError, md, w2)
           \<and> get_result E pool task_id md rnd w = (Inl CircuitBreakerError, md, w2))
     \<and> (cb_before E (address host port) w1 = (True, w2)
          \<and> containers_get E cl v w2 = (Inl (ConnErr m), w3)
         \<longrightarrow> fst (stop_job E pool task_id md rnd w)
               = Inl (if fst (cb_failure E (address host port)
                                (HostUnavailableError host port m) w3)
                      then CircuitBreakerError else HostUnavailableError host port m)
           \<and> fst (get_result E pool task_id md rnd w)
               = Inl (if fst (cb_failure E (address host port)
                                (HostUnavailableError host port m) w3)
                      then CircuitBreakerError else HostUnavailableError host port m))
     \<and> (cb_before E (address host port) w1 = (True, w2)
          \<and> containers_get E cl v w2 = (Inr c, w3)
          \<and> container_stop E cl c w3 = (Inl (ConnErr m), w4)
         \<longrightarrow> fst (stop_job E pool task_id md rnd w)
               = Inl (if fst (cb_failure E (address host port)
                                (HostUnavailableError host port m) w4)
                      then CircuitBreakerError else HostUnavailableError host port m))
     \<and> (containers_get E cl v w1 = (Inl (ConnErr m), w2)
         \<longrightarrow> get_streaming_logs E pool task_id md rnd w
               = (([], Some (HostUnavailableError host port m)), md, w2)
           \<and> mark_as_done E pool task_id md rnd w
               = (Inl (HostUnavailableError host port m), md, w2))
     \<and> (containers_get E cl v w1 = (Inr c, w2)
          \<and> container_logs_stream E cl c w2 = ((chunks, Some (ConnErr m)), w3)
          \<and> those (map (decode_utf8 E) chunks) = Some ys
         \<longrightarrow> get_streaming_logs E pool task_id md rnd w
               = ((ys, Some (HostUnavailableError host port m)), md, w3))
     \<and> (containers_get E cl v w1 = (Inr c, w2)
          \<and> container_rename E cl c (defunct_name c) w2 = (Inl (ConnErr m), w3)
         \<longrightarrow> mark_as_done E pool task_id md rnd w
               = (Inl (HostUnavailableError host port m), md, w3)))"
  apply (intro conjI impI)
  subgoal by ((elim conjE)?, rule update_image_refused)
  subgoal by ((elim conjE)?, rule update_image_unavailable)
  subgoal by ((elim conjE)?, rule run_refused)
  subgoal by ((elim conjE)?, rule run_unavailable)
  subgoal by ((elim conjE)?, rule stop_job_refused)
  subgoal by ((elim conjE)?, rule get_result_bound_refused)
  subgoal by ((elim conjE)?, rule stop_job_get_unavailable)
  subgoal by ((elim conjE)?, rule get_result_unavailable)
  subgoal by ((elim conjE)?, rule stop_job_stop_unavailable)
  subgoal by ((elim conjE)?, rule get_streaming_logs_get_unavailable)
  subgoal by ((elim conjE)?, rule mark_as_done_get_unavailable)
  subgoal by ((elim conjE)?, rule get_streaming_logs_stream_unavailable)
  subgoal by ((elim conjE)?, rule mark_as_done_rename_unavailable)
  done

text \<open>
  Runs of each operation: a pull that loses the connection, a host that does not
  answer, an open breaker, and a breaker that a single failure trips.
\<close>

theorem breaker_dispatch_and_host_unavailable_witness:
  "fst (update_image sim_env_pull_cut sim_pool ''web-1'' sim_bound ''img'' ''v1'' (Some {}) 0
         sim_started) = Inl (HostUnavailableError ''hcpu'' 2375 ''connection refused'')
   \<and> fst (run sim_env sim_pool ''web-1'' ''e1'' sim_bound ''img'' ''v1'' ''echo'' [] None 0 sim_down)
       = Inl (HostUnavailableError ''hcpu'' 2375 ''connection refused'')
   \<and> stop_job sim_env sim_pool ''web-1'' sim_bound 0 sim_open
       = (Inl CircuitBreakerError, sim_bound, sim_open)
   \<and> get_result sim_env sim_pool ''web-1'' sim_bound 0 sim_open
       = (Inl CircuitBreakerError, sim_bound, sim_open)
   \<and> fst (stop_job sim_env sim_pool ''web-1'' sim_bound 0 sim_down)
       = Inl (HostUnavailableError ''hcpu'' 2375 ''connection refused'')
   \<and> fst (get_result sim_env sim_pool ''web-1'' sim_bound 0 sim_down)
       = Inl (HostUnavailableError ''hcpu'' 2375 ''connection refused'')
   \<and> fst (stop_job sim_env sim_pool ''web-1'' sim_bound 0 (sim_down\<lparr>sw_trip := True\<rparr>))
       = Inl CircuitBreakerError
   \<and> get_streaming_logs sim_env sim_pool ''web-1'' sim_bound 0 sim_down
       = (([], Some (HostUnavailableError ''hcpu'' 2375 ''connection refused'')), sim_bound, sim_down)
   \<and> mark_as_done sim_env sim_pool ''web-1'' sim_bound 0 sim_down
       = (Inl (HostUnavailableError ''hcpu'' 2375 ''connection refused''), sim_bound, sim_down)"
proof -
  let ?e = "HostUnavailableError ''hcpu'' 2375 ''connection refused''"
  let ?trip = "sim_down\<lparr>sw_trip := True\<rparr>"
  note general = breaker_dispatch_and_host_unavailable
    [where pool = sim_pool and task_id = "''web-1''" and md = sim_bound and rnd = 0
      and host = "''hcpu''" and port = 2375 and cl = "''hcpu:2375''"
      and m = "''connection refused''" and v = "MStr ''id-fastlane-job-e1''"]
  have ident: "sim_bound ''container_id'' = Some (MStr ''id-fastlane-job-e1'')"
    by (simp add: sim_bound_def)
  have bl: "blacklist_or_shared sim_env_pull_cut (Some {}) sim_started = Inr {}"
    by (simp add: blacklist_or_shared_def)
  have sel: "get_client sim_env_pull_cut sim_pool ''web-1'' MNone MNone (Some {}) 0 sim_started
      = (Inr (Some (''hcpu'', 2375, ''hcpu:2375'')), sim_started)"
    by code_simp
  have adm: "cb_before sim_env_pull_cut (address ''hcpu'' 2375) sim_started = (True, sim_started)"
    by code_simp
  have pull: "images_pull sim_env_pull_cut ''hcpu:2375'' ''img'' ''v1'' sim_started
      = (Inl (ConnErr ''connection refused''), sim_started)"
    by code_simp
  have kept: "fst (cb_failure sim_env_pull_cut (address ''hcpu'' 2375) ?e sim_started) = False"
    by code_simp
  have "fst (update_image sim_env_pull_cut sim_pool ''web-1'' sim_bound ''img'' ''v1'' (Some {}) 0
         sim_started)
      = Inl (if fst (cb_failure sim_env_pull_cut (address ''hcpu'' 2375) ?e sim_started)
             then CircuitBreakerError else ?e)"
    using general [where E = sim_env_pull_cut and w = sim_started and ?w1.0 = sim_started
        and ?w2.0 = sim_started and ?w3.0 = sim_started and blacklisted_hosts = "Some {}"
        and bl = "{}" and img = "''img''" and tag = "''v1''"]
      bl sel adm pull
    by blast
  then have a1: "fst (update_image sim_env_pull_cut sim_pool ''web-1'' sim_bound ''img'' ''v1''
      (Some {}) 0 sim_started) = Inl ?e"
    by (simp only: kept if_False)
  have rh: "run_host sim_env sim_pool ''web-1'' sim_bound None 0 sim_down
      = (Inr (''hcpu'', 2375, ''hcpu:2375''), sim_bound, sim_down)"
    by (simp add: run_host_def sim_bound_client) (simp add: sim_bound_def)
  have adm2: "cb_before sim_env (address ''hcpu'' 2375) sim_down = (True, sim_down)"
    by code_simp
  have start: "containers_run sim_env ''hcpu:2375'' (''img'' @ '':'' @ ''v1'')
      (job_prefix @ ''-'' @ ''e1'') ''echo'' [] sim_down
      = (Inl (ConnErr ''connection refused''), sim_down)"
    by code_simp
  have kept2: "fst (cb_failure sim_env (address ''hcpu'' 2375) ?e sim_down) = False"
    by code_simp
  have "fst (run sim_env sim_pool ''web-1'' ''e1'' sim_bound ''img'' ''v1'' ''echo'' [] None 0 sim_down)
      = Inl (if fst (cb_failure sim_env (address ''hcpu'' 2375) ?e sim_down)
             then CircuitBreakerError else ?e)"
    using general [where E = sim_env and w = sim_down and ?w1.0 = sim_down
        and ?w2.0 = sim_down and ?w3.0 = sim_down and blacklisted_hosts = None
        and ?md1.0 = sim_bound and img = "''img''" and tag = "''v1''"
        and execution_id = "''e1''" and command = "''echo''" and envs = "[]"]
      rh adm2 start
    by blast
  then have a2: "fst (run sim_env sim_pool ''web-1'' ''e1'' sim_bound ''img'' ''v1'' ''echo'' [] None 0
      sim_down) = Inl ?e"
    by (simp only: kept2 if_False)
  have refuse: "cb_before sim_env (address ''hcpu'' 2375) sim_open = (False, sim_open)"
    by code_simp
  have a3: "stop_job sim_env sim_pool ''web-1'' sim_bound 0 sim_open
       = (Inl CircuitBreakerError, sim_bound, sim_open)
     \<and> get_result sim_env sim_pool ''web-1'' sim_bound 0 sim_open
       = (Inl CircuitBreakerError, sim_bound, sim_open)"
    using general [where E = sim_env and w = sim_open and ?w1.0 = sim_open and ?w2.0 = sim_open]
      ident sim_bound_client [of "''web-1''" 0 sim_open] refuse
    by blast
  have gone: "containers_get sim_env ''hcpu:2375'' (MStr ''id-fastlane-job-e1'') sim_down
      = (Inl (ConnErr ''connection refused''), sim_down)"
    by code_simp
  have "fst (stop_job sim_env sim_pool ''web-1'' sim_bound 0 sim_down)
       = Inl (if fst (cb_failure sim_env (address ''hcpu'' 2375) ?e sim_down)
              then CircuitBreakerError else ?e)
     \<and> fst (get_result sim_env sim_pool ''web-1'' sim_bound 0 sim_down)
       = Inl (if fst (cb_failure sim_env (address ''hcpu'' 2375) ?e sim_down)
              then CircuitBreakerError else ?e)"
    using general [where E = sim_env and w = sim_down and ?w1.0 = sim_down and ?w2.0 = sim_down
        and ?w3.0 = sim_down]
      ident sim_bound_client [of "''web-1''" 0 sim_down] adm2 gone
    by blast
  then have a4: "fst (stop_job sim_env sim_pool ''web-1'' sim_bound 0 sim_down) = Inl ?e
     \<and> fst (get_result sim_env sim_pool ''web-1'' sim_bound 0 sim_down) = Inl ?e"
    by (simp only: kept2 if_False)
  have adm3: "cb_before sim_env (address ''hcpu'' 2375) ?trip = (True, ?trip)"
    by code_simp
  have gone3: "containers_get sim_env ''hcpu:2375'' (MStr ''id-fastlane-job-e1'') ?trip
      = (Inl (ConnErr ''connection refused''), ?trip)"
    by code_simp
  have tripped: "fst (cb_failure sim_env (address ''hcpu'' 2375) ?e ?trip) = True"
    by code_simp
  have "fst (stop_job sim_env sim_pool ''web-1'' sim_bound 0 ?trip)
       = Inl (if fst (cb_failure sim_env (address ''hcpu'' 2375) ?e ?trip)
              then CircuitBreakerError else ?e)"
    using general [where E = sim_env and w = ?trip and ?w1.0 = ?trip and ?w2.0 = ?trip
        and ?w3.0 = ?trip]
      ident sim_bound_client [of "''web-1''" 0 ?trip] adm3 gone3
    by blast
  then have a5: "fst (stop_job sim_env sim_pool ''web-1'' sim_bound 0 ?trip)
      = Inl CircuitBreakerError"
    by (simp only: tripped if_True)
  have a6: "get_streaming_logs sim_env sim_pool ''web-1'' sim_bound 0 sim_down
       = (([], Some ?e), sim_bound, sim_down)
     \<and> mark_as_done sim_env sim_pool ''web-1'' sim_bound 0 sim_down
       = (Inl ?e, sim_bound, sim_down)"
    using general [where E = sim_env and w = sim_down and ?w1.0 = sim_down and ?w2.0 = sim_down]
      ident sim_bound_client [of "''web-1''" 0 sim_down] gone
    by blast
  from a1 a2 a3 a4 a5 a6 show ?thesis by blast
qed

end
